theory Spec2Isabelle
  imports Complex_Main "HOL-Library.Word"
begin

section \<open>AITrader: the market-data aggregation pipeline\<close>

text \<open>
  A shallow embedding of the Go packages \<^verbatim>\<open>utils\<close> (the open-interest cache manager),
  \<^verbatim>\<open>indicators\<close> (market data, short-term and long-term indicator snapshots),
  \<^verbatim>\<open>binance\<close> (the change-rate helper) and of the two strategy loops of the main
  program.

  Conventions of the embedding:
  \<^item> a \<^verbatim>\<open>float64\<close> is the real number it denotes; the rounding error of floating-point
    arithmetic, infinities and NaN are not part of the model. \<^verbatim>\<open>math.Round\<close> and the
    two-decimal formatting built on it are modelled exactly;
  \<^item> an \<^verbatim>\<open>int64\<close> timestamp is a 64-bit word, so subtraction wraps as in Go; lengths
    and the cache capacity (Go \<^verbatim>\<open>int\<close>, only ever compared) are \<open>int\<close>;
  \<^item> a pointer that may be \<^verbatim>\<open>nil\<close> is an \<open>option\<close>;
  \<^item> a run-time panic is \<open>Inl\<close> of a sum type, a normal return is \<open>Inr\<close>;
  \<^item> the exchange client, \<^verbatim>\<open>strconv.ParseFloat\<close>, the go-talib functions and the clock
    are not code of this repository: they are parameters of the model.
\<close>

subsection \<open>Numbers\<close>

type_synonym float64 = real
type_synonym int64 = "64 word"

text \<open>\<^verbatim>\<open>math.Round\<close>: the nearest integer, halves away from zero.\<close>

definition goRound :: "float64 \<Rightarrow> float64" where
  "goRound x = (if x < 0 then - of_int \<lfloor>- x + 1 / 2\<rfloor> else of_int \<lfloor>x + 1 / 2\<rfloor>)"

text \<open>\<^verbatim>\<open>formatPrice\<close>, \<^verbatim>\<open>formatMACD\<close>, \<^verbatim>\<open>formatPercent\<close>:
  \<^verbatim>\<open>math.Round(value*100) / 100\<close> and \<^verbatim>\<open>math.Round(value*10000) / 10000\<close>.\<close>

definition formatPrice :: "float64 \<Rightarrow> float64" where
  "formatPrice v = goRound (v * 100) / 100"

definition formatMACD :: "float64 \<Rightarrow> float64" where
  "formatMACD v = goRound (v * 10000) / 10000"

definition formatPercent :: "float64 \<Rightarrow> float64" where
  "formatPercent v = goRound (v * 100) / 100"

subsection \<open>Change rate\<close>

text \<open>\<^verbatim>\<open>indicators.calculateOIChangeRate\<close> (market.go).\<close>

definition calculateOIChangeRate :: "float64 \<Rightarrow> float64 \<Rightarrow> float64" where
  "calculateOIChangeRate current previous =
     (if previous = 0 then 0
      else formatPercent (((current - previous) / previous) * 100))"


subsection \<open>Panics and slices\<close>

text \<open>The run-time panics that the modelled code can raise.\<close>

datatype panic = NilPointerDereference | IndexOutOfRange | SliceBoundsOutOfRange

text \<open>Sequencing: a panic in the first step ends the computation.\<close>

definition andThen :: "panic + 'a \<Rightarrow> ('a \<Rightarrow> panic + 'b) \<Rightarrow> panic + 'b" where
  "andThen r f = (case r of Inl p \<Rightarrow> Inl p | Inr a \<Rightarrow> f a)"

text \<open>
  The slice expression \<^verbatim>\<open>xs[:n]\<close>. Go panics when \<open>n\<close> is negative or beyond the
  capacity. The capacity of a slice built by \<^verbatim>\<open>append\<close> is chosen by the run time and is
  not modelled: reslicing beyond the length is refused here. Both uses below are guarded by
  \<^verbatim>\<open>len(cache.History) > maxSize\<close>, so for the history only a negative \<open>n\<close> can panic.
\<close>

definition sliceTo :: "'a list \<Rightarrow> int \<Rightarrow> panic + 'a list" where
  "sliceTo xs n =
     (if n < 0 \<or> int (length xs) < n then Inl SliceBoundsOutOfRange
      else Inr (take (nat n) xs))"

subsection \<open>The open-interest cache (package utils)\<close>

text \<open>
  \<^verbatim>\<open>utils.OICache\<close> and \<^verbatim>\<open>indicators.OICache\<close> are two declarations of the same
  struct; the main program copies one into the other field by field. One record stands for
  both. History and timestamps are newest first.
\<close>

record OICache =
  Symbol :: string
  History :: "float64 list"
  Timestamps :: "int64 list"

text \<open>\<^verbatim>\<open>OICacheManager\<close>: the map of caches and the capacity. The lock is not modelled:
  every operation below is one critical section.\<close>

record OICacheManager =
  caches :: "string \<rightharpoonup> OICache"
  maxSize :: int

text \<open>\<^verbatim>\<open>NewOICacheManager\<close>: a capacity that is not positive becomes 5.\<close>

definition NewOICacheManager :: "int \<Rightarrow> OICacheManager" where
  "NewOICacheManager maxSz =
     \<lparr>caches = Map.empty, maxSize = (if maxSz \<le> 0 then 5 else maxSz)\<rparr>"

text \<open>\<^verbatim>\<open>Get\<close>: the cache of the symbol, \<^verbatim>\<open>nil\<close> when there is none.\<close>

definition Get :: "OICacheManager \<Rightarrow> string \<Rightarrow> OICache option" where
  "Get m symbol = caches m symbol"

text \<open>
  \<^verbatim>\<open>Update\<close>: create the cache on first use, prepend the value and the timestamp, cut
  both back to the capacity. The prepending \<^verbatim>\<open>append([]float64{oi}, cache.History...)\<close>
  builds a new slice, so a history handed out earlier is not changed by a later update.
\<close>

definition Update :: "OICacheManager \<Rightarrow> string \<Rightarrow> float64 \<Rightarrow> int64 \<Rightarrow> panic + OICacheManager" where
  "Update m symbol oi timestamp =
     (let cache = (case caches m symbol of
                     None \<Rightarrow> \<lparr>OICache.Symbol = symbol, History = [], Timestamps = []\<rparr>
                   | Some c \<Rightarrow> c);
          history = oi # History cache;
          timestamps = timestamp # Timestamps cache
      in if int (length history) > maxSize m
         then andThen (sliceTo history (maxSize m)) (\<lambda>h.
              andThen (sliceTo timestamps (maxSize m)) (\<lambda>t.
              Inr (m\<lparr>caches := (caches m)(symbol \<mapsto> cache\<lparr>History := h, Timestamps := t\<rparr>)\<rparr>)))
         else Inr (m\<lparr>caches := (caches m)(symbol \<mapsto>
                     cache\<lparr>History := history, Timestamps := timestamps\<rparr>)\<rparr>))"

text \<open>\<^verbatim>\<open>IsExpired\<close>; \<open>now\<close> is the value of \<^verbatim>\<open>time.Now().Unix()\<close>. The subtraction
  is the \<^verbatim>\<open>int64\<close> one and wraps.\<close>

definition IsExpired :: "int64 \<Rightarrow> OICacheManager \<Rightarrow> string \<Rightarrow> int64 \<Rightarrow> bool" where
  "IsExpired now m symbol maxAge =
     (case Get m symbol of
        None \<Rightarrow> True
      | Some cache \<Rightarrow>
          (case Timestamps cache of
             [] \<Rightarrow> True
           | latestTimestamp # _ \<Rightarrow> sint maxAge < sint (now - latestTimestamp)))"

subsection \<open>The cache helper of package indicators\<close>

text \<open>\<^verbatim>\<open>UpdateOICache\<close> (market.go): the same steps on one cache, with the capacity as
  an argument; a \<^verbatim>\<open>nil\<close> cache is replaced by an empty one.\<close>

definition UpdateOICache :: "OICache option \<Rightarrow> float64 \<Rightarrow> int64 \<Rightarrow> int \<Rightarrow> panic + OICache" where
  "UpdateOICache cache newOI timestamp maxSz =
     (let c = (case cache of
                 None \<Rightarrow> \<lparr>OICache.Symbol = [], History = [], Timestamps = []\<rparr>
               | Some c \<Rightarrow> c);
          history = newOI # History c;
          timestamps = timestamp # Timestamps c
      in if int (length history) > maxSz
         then andThen (sliceTo history maxSz) (\<lambda>h.
              andThen (sliceTo timestamps maxSz) (\<lambda>t.
              Inr (c\<lparr>History := h, Timestamps := t\<rparr>)))
         else Inr (c\<lparr>History := history, Timestamps := timestamps\<rparr>))"

subsection \<open>Sequences of updates\<close>

text \<open>A sequence of \<^verbatim>\<open>Update(key, value, timestamp)\<close> calls on a manager, and a sequence
  of \<^verbatim>\<open>cache = UpdateOICache(cache, value, timestamp, maxSize)\<close> calls on one cache.\<close>

fun applyUpdates :: "OICacheManager \<Rightarrow> (string \<times> float64 \<times> int64) list \<Rightarrow> panic + OICacheManager" where
  "applyUpdates m [] = Inr m"
| "applyUpdates m ((k, v, t) # us) = andThen (Update m k v t) (\<lambda>m'. applyUpdates m' us)"

fun applyUpdateOICache :: "OICache option \<Rightarrow> (float64 \<times> int64) list \<Rightarrow> int \<Rightarrow> panic + OICache option" where
  "applyUpdateOICache c [] maxSz = Inr c"
| "applyUpdateOICache c ((v, t) # us) maxSz =
     andThen (UpdateOICache c v t maxSz) (\<lambda>c'. applyUpdateOICache (Some c') us maxSz)"

text \<open>The values written for one key, in call order; the last \<open>n\<close> elements of a list; the
  history stored for a key (empty when there is no cache).\<close>

definition updatesOf :: "string \<Rightarrow> (string \<times> float64 \<times> int64) list \<Rightarrow> float64 list" where
  "updatesOf k us = map (\<lambda>(k', v, t). v) (filter (\<lambda>(k', v, t). k' = k) us)"

definition lastN :: "nat \<Rightarrow> 'a list \<Rightarrow> 'a list" where
  "lastN n xs = drop (length xs - n) xs"

definition historyOf :: "OICacheManager \<Rightarrow> string \<Rightarrow> float64 list" where
  "historyOf m k = (case Get m k of None \<Rightarrow> [] | Some c \<Rightarrow> History c)"

definition historyOfCache :: "OICache option \<Rightarrow> float64 list" where
  "historyOfCache c = (case c of None \<Rightarrow> [] | Some c \<Rightarrow> History c)"

text \<open>The invariant of the manager: a capacity that is not negative, and in every cache as
  many timestamps as values, no more than the capacity.\<close>

definition aligned :: "OICacheManager \<Rightarrow> bool" where
  "aligned m \<longleftrightarrow> 0 \<le> maxSize m \<and>
     (\<forall>k c. caches m k = Some c \<longrightarrow>
        length (Timestamps c) = length (History c) \<and> int (length (History c)) \<le> maxSize m)"

definition alignedCache :: "OICache option \<Rightarrow> bool" where
  "alignedCache c = (case c of None \<Rightarrow> True | Some c \<Rightarrow> length (Timestamps c) = length (History c))"

text \<open>Example data: eight updates, seven of them for one symbol; a manager holding one
  sample with the smallest \<^verbatim>\<open>int64\<close> timestamp, and one holding a recent sample.\<close>

definition sevenUpdates :: "(string \<times> float64 \<times> int64) list" where
  "sevenUpdates = [(''BTCUSDT'', 10, 100), (''BTCUSDT'', 11, 200), (''ETHUSDT'', 7, 250),
     (''BTCUSDT'', 12, 300), (''BTCUSDT'', 13, 400), (''BTCUSDT'', 14, 500),
     (''BTCUSDT'', 15, 600), (''BTCUSDT'', 16, 700)]"

definition ancientManager :: OICacheManager where
  "ancientManager =
     \<lparr>caches = [''BTCUSDT'' \<mapsto>
        \<lparr>OICache.Symbol = ''BTCUSDT'', History = [1], Timestamps = [- 9223372036854775808]\<rparr>],
      maxSize = 5\<rparr>"

definition recentManager :: OICacheManager where
  "recentManager =
     \<lparr>caches = [''BTCUSDT'' \<mapsto>
        \<lparr>OICache.Symbol = ''BTCUSDT'', History = [1], Timestamps = [1699990000]\<rparr>],
      maxSize = 5\<rparr>"

subsection \<open>The exchange client and the libraries\<close>

text \<open>
  The signed HTTP client of package \<^verbatim>\<open>binance\<close> is represented by the answers it gives:
  one function per method, from the request to an error or a reply. Of the reply structs
  only the fields that the modelled code reads are kept (all of them strings, as the
  exchange sends them).
\<close>

type_synonym error = string

record Kline =
  Open :: string
  High :: string
  Low :: string
  Close :: string
  Volume :: string

record OpenInterest =
  OpenInterest :: string

record FundingRate =
  FundingRate :: string

record PremiumIndex =
  LastFundingRate :: string

record Client =
  GetKlines :: "string \<Rightarrow> string \<Rightarrow> int \<Rightarrow> error + Kline list"
  GetOpenInterest :: "string \<Rightarrow> error + OpenInterest"
  GetPremiumIndex :: "string \<Rightarrow> error + PremiumIndex"
  GetFundingRateHistory :: "string \<Rightarrow> int \<Rightarrow> error + FundingRate list"

text \<open>
  What the code takes from outside the repository: \<^verbatim>\<open>strconv.ParseFloat\<close> (\<open>None\<close> for
  an error), the clock \<^verbatim>\<open>time.Now().Unix()\<close> (one reading stands for all readings of a
  call) and the functions of go-talib. Nothing is assumed about them here; the contract of
  go-talib that some properties need is stated further down and named where it is used.
\<close>

record Env =
  ParseFloat :: "string \<Rightarrow> float64 option"
  Now :: int64
  talib_Ema :: "float64 list \<Rightarrow> int \<Rightarrow> float64 list"
  talib_Macd :: "float64 list \<Rightarrow> int \<Rightarrow> int \<Rightarrow> int \<Rightarrow> float64 list \<times> float64 list \<times> float64 list"
  talib_Rsi :: "float64 list \<Rightarrow> int \<Rightarrow> float64 list"
  talib_BBands :: "float64 list \<Rightarrow> int \<Rightarrow> float64 \<Rightarrow> float64 \<Rightarrow> float64 list \<times> float64 list \<times> float64 list"
  talib_Atr :: "float64 list \<Rightarrow> float64 list \<Rightarrow> float64 list \<Rightarrow> int \<Rightarrow> float64 list"
  talib_Adx :: "float64 list \<Rightarrow> float64 list \<Rightarrow> float64 list \<Rightarrow> int \<Rightarrow> float64 list"
  talib_StochRsi :: "float64 list \<Rightarrow> int \<Rightarrow> int \<Rightarrow> int \<Rightarrow> float64 list \<times> float64 list"

subsection \<open>Market data (market.go)\<close>

record OIMetrics =
  Current :: float64

record FundingMetrics =
  Current :: float64
  Avg3 :: float64

record MarketData =
  OICurrent :: float64
  OIHistory :: "float64 list"
  OIChange5m :: "float64 option"
  OIChange15m :: "float64 option"
  OIChange25m :: "float64 option"
  OIChange45m :: "float64 option"
  OIChange75m :: "float64 option"
  FundingRate :: float64
  FundingAvg3 :: float64

text \<open>\<^verbatim>\<open>CalculateOIMetrics\<close>: \<^verbatim>\<open>nil\<close> when the fetch or the parse fails.\<close>

definition CalculateOIMetrics :: "Env \<Rightarrow> Client \<Rightarrow> string \<Rightarrow> float64 \<Rightarrow> OIMetrics option" where
  "CalculateOIMetrics env client symbol currentPrice =
     (case GetOpenInterest client symbol of
        Inl err \<Rightarrow> None
      | Inr oi \<Rightarrow>
          (case ParseFloat env (OpenInterest.OpenInterest oi) of
             None \<Rightarrow> None
           | Some oiValue \<Rightarrow>
               (let currentOIValue = oiValue * currentPrice
                in Some \<lparr>OIMetrics.Current = formatPrice currentOIValue\<rparr>)))"

text \<open>The loop of \<^verbatim>\<open>CalculateFundingMetrics\<close> over the fetched history: the sum and the
  number of the rates that parse.\<close>

definition sumRates :: "Env \<Rightarrow> FundingRate list \<Rightarrow> float64 \<times> int" where
  "sumRates env fundingRates =
     foldl (\<lambda>(sum, count) fr.
              (case ParseFloat env (FundingRate.FundingRate fr) of
                 Some rate \<Rightarrow> (sum + rate, count + 1)
               | None \<Rightarrow> (sum, count)))
           (0, 0) fundingRates"

text \<open>\<^verbatim>\<open>CalculateFundingMetrics\<close>: \<^verbatim>\<open>nil\<close> when the current rate cannot be fetched or
  parsed; when only the history cannot be fetched, a result with \<^verbatim>\<open>Avg3: 0\<close>.\<close>

definition CalculateFundingMetrics :: "Env \<Rightarrow> Client \<Rightarrow> string \<Rightarrow> FundingMetrics option" where
  "CalculateFundingMetrics env client symbol =
     (case GetPremiumIndex client symbol of
        Inl err \<Rightarrow> None
      | Inr premium \<Rightarrow>
          (case ParseFloat env (LastFundingRate premium) of
             None \<Rightarrow> None
           | Some currentRate \<Rightarrow>
               (case GetFundingRateHistory client symbol 3 of
                  Inl err \<Rightarrow>
                    Some \<lparr>FundingMetrics.Current = formatPercent (currentRate * 100), Avg3 = 0\<rparr>
                | Inr fundingRates \<Rightarrow>
                    (let (sum, count) = sumRates env fundingRates;
                         avg3 = (if count > 0 then sum / of_int count else 0)
                     in Some \<lparr>FundingMetrics.Current = formatPercent (currentRate * 100),
                              Avg3 = formatPercent (avg3 * 100)\<rparr>))))"

text \<open>\<^verbatim>\<open>CalculateMarketData\<close>. The three guards are those of the source:
  \<^verbatim>\<open>len >= 2\<close> before reading index 0, \<^verbatim>\<open>len >= 4\<close> before index 2,
  \<^verbatim>\<open>len >= 5\<close> before index 4 (read twice, for the 25 and the 45 minute field).\<close>

definition CalculateMarketData ::
    "Env \<Rightarrow> Client \<Rightarrow> string \<Rightarrow> float64 \<Rightarrow> OICache option \<Rightarrow> MarketData option" where
  "CalculateMarketData env client symbol currentPrice oiCache =
     (case CalculateOIMetrics env client symbol currentPrice of
        None \<Rightarrow> None
      | Some oiMetrics \<Rightarrow>
          (case CalculateFundingMetrics env client symbol of
             None \<Rightarrow> None
           | Some fundingMetrics \<Rightarrow>
               (let marketData =
                      \<lparr>OICurrent = formatPrice (OIMetrics.Current oiMetrics / 1000000),
                       OIHistory = [], OIChange5m = None, OIChange15m = None,
                       OIChange25m = None, OIChange45m = None, OIChange75m = None,
                       FundingRate = FundingMetrics.Current fundingMetrics,
                       FundingAvg3 = Avg3 fundingMetrics\<rparr>
                in case oiCache of
                     None \<Rightarrow> Some marketData
                   | Some cache \<Rightarrow>
                       if length (History cache) > 0 then
                         (let md0 = marketData\<lparr>OIHistory := History cache\<rparr>;
                              md1 = (if length (History cache) \<ge> 2
                                     then md0\<lparr>OIChange5m := Some (calculateOIChangeRate
                                            (OIMetrics.Current oiMetrics / 1000000) (History cache ! 0))\<rparr>
                                     else md0);
                              md2 = (if length (History cache) \<ge> 4
                                     then md1\<lparr>OIChange15m := Some (calculateOIChangeRate
                                            (OIMetrics.Current oiMetrics / 1000000) (History cache ! 2))\<rparr>
                                     else md1);
                              md3 = (if length (History cache) \<ge> 5
                                     then md2\<lparr>OIChange25m := Some (calculateOIChangeRate
                                            (OIMetrics.Current oiMetrics / 1000000) (History cache ! 4)),
                                          OIChange45m := Some (calculateOIChangeRate
                                            (OIMetrics.Current oiMetrics / 1000000) (History cache ! 4))\<rparr>
                                     else md2)
                          in Some md3)
                       else Some marketData)))"

subsection \<open>Example data\<close>

text \<open>
  A parser for the examples: it agrees with \<^verbatim>\<open>strconv.ParseFloat\<close> on plain decimal
  literals (an optional minus sign, digits, optionally a point and more digits) and rejects
  every other string. The theorems below hold for every parser; this one only
  instantiates them.
\<close>

definition digitOf :: "char \<Rightarrow> nat option" where
  "digitOf c =
     (let code = (of_char c :: nat)
      in if 48 \<le> code \<and> code \<le> 57 then Some (code - 48) else None)"

fun digitsOf :: "string \<Rightarrow> nat \<Rightarrow> nat option" where
  "digitsOf [] acc = Some acc"
| "digitsOf (c # cs) acc =
     (case digitOf c of None \<Rightarrow> None | Some d \<Rightarrow> digitsOf cs (10 * acc + d))"

definition parseDecimal :: "string \<Rightarrow> float64 option" where
  "parseDecimal s =
     (let neg = (s \<noteq> [] \<and> hd s = CHR ''-'');
          body = (if neg then tl s else s);
          ip = takeWhile (\<lambda>c. c \<noteq> CHR ''.'') body;
          rest = dropWhile (\<lambda>c. c \<noteq> CHR ''.'') body;
          fp = (if rest = [] then [] else tl rest)
      in if ip = [] \<or> (rest \<noteq> [] \<and> fp = []) then None
         else (case (digitsOf ip 0, digitsOf fp 0) of
                 (Some a, Some b) \<Rightarrow>
                   Some ((if neg then - 1 else 1) * (of_nat a + of_nat b / 10 ^ length fp))
               | _ \<Rightarrow> None))"

text \<open>A candle, an environment (the talib functions are stand-ins that return their
  input), a client that fails to fetch candles for one symbol, and a cache builder.\<close>

definition demoKline :: Kline where
  "demoKline = \<lparr>Open = ''50000'', High = ''50100'', Low = ''49900'', Close = ''50000'',
                 Volume = ''12.5''\<rparr>"

definition demoEnv :: Env where
  "demoEnv = \<lparr>ParseFloat = parseDecimal, Now = 1700000000,
     talib_Ema = (\<lambda>xs period. xs),
     talib_Macd = (\<lambda>xs fast slow signal. (xs, xs, xs)),
     talib_Rsi = (\<lambda>xs period. xs),
     talib_BBands = (\<lambda>xs period up dn. (xs, xs, xs)),
     talib_Atr = (\<lambda>hs ls cs period. cs),
     talib_Adx = (\<lambda>hs ls cs period. cs),
     talib_StochRsi = (\<lambda>xs period k d. (xs, xs))\<rparr>"

definition demoClient :: Client where
  "demoClient = \<lparr>
     GetKlines = (\<lambda>symbol interval limit.
        if symbol = ''ETHUSDT'' then Inl ''timeout'' else Inr (replicate (nat limit) demoKline)),
     GetOpenInterest = (\<lambda>symbol. Inr \<lparr>OpenInterest = ''1000''\<rparr>),
     GetPremiumIndex = (\<lambda>symbol. Inr \<lparr>LastFundingRate = ''0.0001''\<rparr>),
     GetFundingRateHistory = (\<lambda>symbol limit.
        Inr [\<lparr>FundingRate.FundingRate = ''0.0001''\<rparr>, \<lparr>FundingRate.FundingRate = ''0.0002''\<rparr>,
             \<lparr>FundingRate.FundingRate = ''0.0003''\<rparr>])\<rparr>"

definition cacheOf :: "float64 list \<Rightarrow> OICache" where
  "cacheOf h = \<lparr>OICache.Symbol = ''BTCUSDT'', History = h, Timestamps = map (\<lambda>v. 0) h\<rparr>"

definition demoMarketData :: MarketData where
  "demoMarketData = \<lparr>OICurrent = 50, OIHistory = [49, 48, 47, 46, 40],
       OIChange5m = Some (204 / 100), OIChange15m = Some (638 / 100),
       OIChange25m = Some 25, OIChange45m = Some 25, OIChange75m = None,
       FundingRate = 1 / 100, FundingAvg3 = 2 / 100\<rparr>"

text \<open>The same client with a funding-rate history that cannot be fetched.\<close>

definition noHistoryClient :: Client where
  "noHistoryClient = demoClient\<lparr>GetFundingRateHistory := (\<lambda>symbol limit. Inl ''timeout'')\<rparr>"

subsection \<open>Indicator functions (the common indicator file of package indicators)\<close>

text \<open>The index expression \<^verbatim>\<open>xs[i]\<close>, which panics out of range.\<close>

definition elemAt :: "'a list \<Rightarrow> int \<Rightarrow> panic + 'a" where
  "elemAt xs i =
     (if i < 0 \<or> int (length xs) \<le> i then Inl IndexOutOfRange else Inr (xs ! nat i))"

text \<open>\<^verbatim>\<open>v, _ := strconv.ParseFloat(s, 64)\<close>: the error is dropped; for a string that is
  not a number the value is then 0. (For a number out of range Go returns an infinity,
  which the model does not have.)\<close>

definition parseOrZero :: "Env \<Rightarrow> string \<Rightarrow> float64" where
  "parseOrZero env s = (case ParseFloat env s of Some v \<Rightarrow> v | None \<Rightarrow> 0)"

definition extractCloses :: "Env \<Rightarrow> Kline list \<Rightarrow> float64 list" where
  "extractCloses env klines = map (\<lambda>kline. parseOrZero env (Close kline)) klines"

definition extractHLC :: "Env \<Rightarrow> Kline list \<Rightarrow> float64 list \<times> float64 list \<times> float64 list" where
  "extractHLC env klines =
     (map (\<lambda>kline. parseOrZero env (High kline)) klines,
      map (\<lambda>kline. parseOrZero env (Low kline)) klines,
      map (\<lambda>kline. parseOrZero env (Close kline)) klines)"

text \<open>The data of one timeframe (the struct \<^verbatim>\<open>TimeframeData\<close>; its reserved fields
  \<^verbatim>\<open>Ichimoku\<close> and \<^verbatim>\<open>CVD\<close> are never assigned and are left out).\<close>

record MACDData =
  DIF :: float64
  DEA :: float64
  Histogram :: float64

record BBData =
  Upper :: float64
  Middle :: float64
  Lower :: float64

record StochRSIData =
  K :: float64
  D :: float64

record TimeframeData =
  ClosePrice :: float64
  HighPrice :: float64
  LowPrice :: float64
  OpenPrice :: float64
  EMA9 :: float64
  EMA21 :: float64
  EMA55 :: float64
  MACD :: "MACDData option"
  RSI :: float64
  BB :: "BBData option"
  ATR :: float64
  Volume :: float64
  ADX :: "float64 option"
  VWAP :: "float64 option"
  StochRSI :: "StochRSIData option"

text \<open>
  Each indicator guards the length of the candle series, calls go-talib and reads the last
  element of the result; with an empty result that index expression panics. The moving
  average type argument of \<^verbatim>\<open>talib.BBands\<close> and \<^verbatim>\<open>talib.StochRsi\<close> is the constant
  \<^verbatim>\<open>talib.SMA\<close> and is not passed.
\<close>

definition CalculateEMA :: "Env \<Rightarrow> Kline list \<Rightarrow> int \<Rightarrow> panic + float64" where
  "CalculateEMA env klines period =
     (if int (length klines) < period then Inr 0
      else (let closes = extractCloses env klines;
                ema = talib_Ema env closes period
            in andThen (elemAt ema (int (length ema) - 1)) (\<lambda>v. Inr (formatPrice v))))"

definition CalculateMACD :: "Env \<Rightarrow> Kline list \<Rightarrow> panic + MACDData option" where
  "CalculateMACD env klines =
     (if length klines < 26 then Inr None
      else (let closes = extractCloses env klines;
                (macd, signal, histogram) = talib_Macd env closes 12 26 9;
                latest = int (length macd) - 1
            in andThen (elemAt macd latest) (\<lambda>dif.
               andThen (elemAt signal latest) (\<lambda>dea.
               andThen (elemAt histogram latest) (\<lambda>hist.
               Inr (Some \<lparr>DIF = formatMACD dif, DEA = formatMACD dea,
                          Histogram = formatMACD hist\<rparr>))))))"

definition CalculateRSI :: "Env \<Rightarrow> Kline list \<Rightarrow> int \<Rightarrow> panic + float64" where
  "CalculateRSI env klines period =
     (if int (length klines) < period + 1 then Inr 0
      else (let closes = extractCloses env klines;
                rsi = talib_Rsi env closes period
            in andThen (elemAt rsi (int (length rsi) - 1)) (\<lambda>v. Inr (formatPercent v))))"

definition CalculateBollingerBands ::
    "Env \<Rightarrow> Kline list \<Rightarrow> int \<Rightarrow> float64 \<Rightarrow> panic + BBData option" where
  "CalculateBollingerBands env klines period stdDev =
     (if int (length klines) < period then Inr None
      else (let closes = extractCloses env klines;
                (upper, middle, lower) = talib_BBands env closes period stdDev stdDev;
                latest = int (length upper) - 1
            in andThen (elemAt upper latest) (\<lambda>u.
               andThen (elemAt middle latest) (\<lambda>m.
               andThen (elemAt lower latest) (\<lambda>l.
               Inr (Some \<lparr>Upper = formatPrice u, Middle = formatPrice m,
                          Lower = formatPrice l\<rparr>))))))"

definition CalculateATR :: "Env \<Rightarrow> Kline list \<Rightarrow> int \<Rightarrow> panic + float64" where
  "CalculateATR env klines period =
     (if int (length klines) < period + 1 then Inr 0
      else (let (highs, lows, closes) = extractHLC env klines;
                atr = talib_Atr env highs lows closes period
            in andThen (elemAt atr (int (length atr) - 1)) (\<lambda>v. Inr (formatPrice v))))"

definition CalculateADX :: "Env \<Rightarrow> Kline list \<Rightarrow> int \<Rightarrow> panic + float64" where
  "CalculateADX env klines period =
     (if int (length klines) < period * 2 then Inr 0
      else (let (highs, lows, closes) = extractHLC env klines;
                adx = talib_Adx env highs lows closes period
            in andThen (elemAt adx (int (length adx) - 1)) (\<lambda>v. Inr (formatPercent v))))"

definition CalculateStochRSI :: "Env \<Rightarrow> Kline list \<Rightarrow> int \<Rightarrow> panic + StochRSIData option" where
  "CalculateStochRSI env klines period =
     (if int (length klines) < period * 2 then Inr None
      else (let closes = extractCloses env klines;
                (fastK, fastD) = talib_StochRsi env closes period 5 3;
                latest = int (length fastK) - 1
            in andThen (elemAt fastK latest) (\<lambda>k.
               andThen (elemAt fastD latest) (\<lambda>d.
               Inr (Some \<lparr>K = formatPercent k, D = formatPercent d\<rparr>)))))"

definition CalculateVWAP :: "Env \<Rightarrow> Kline list \<Rightarrow> float64" where
  "CalculateVWAP env klines =
     (if klines = [] then 0
      else (let (totalPV, totalVolume) =
                  foldl (\<lambda>(totalPV, totalVolume) kline.
                           (let high = parseOrZero env (High kline);
                                low = parseOrZero env (Low kline);
                                close = parseOrZero env (Close kline);
                                volume = parseOrZero env (Kline.Volume kline);
                                typicalPrice = (high + low + close) / 3
                            in (totalPV + typicalPrice * volume, totalVolume + volume)))
                        (0, 0) klines
            in if totalVolume = 0 then 0 else formatPrice (totalPV / totalVolume)))"

definition GetVolume :: "Env \<Rightarrow> Kline \<Rightarrow> float64" where
  "GetVolume env kline = formatPrice (parseOrZero env (Kline.Volume kline))"

subsection \<open>Timeframe data and the two snapshots (short_term.go and the long-term file)\<close>

text \<open>\<^verbatim>\<open>calculateTimeframeData\<close>: \<^verbatim>\<open>nil\<close> for an empty series, otherwise the latest
  prices and all indicators; ADX, VWAP and StochRSI only from 28 candles on.\<close>

definition calculateTimeframeData :: "Env \<Rightarrow> Kline list \<Rightarrow> string \<Rightarrow> panic + TimeframeData option" where
  "calculateTimeframeData env klines timeframe =
     (if length klines = 0 then Inr None
      else
        (let latest = length klines - 1;
             closePrice = parseOrZero env (Close (klines ! latest));
             highPrice = parseOrZero env (High (klines ! latest));
             lowPrice = parseOrZero env (Low (klines ! latest));
             openPrice = parseOrZero env (Open (klines ! latest));
             volume = GetVolume env (klines ! latest)
         in andThen (CalculateEMA env klines 9) (\<lambda>ema9.
            andThen (CalculateEMA env klines 21) (\<lambda>ema21.
            andThen (CalculateEMA env klines 55) (\<lambda>ema55.
            andThen (CalculateMACD env klines) (\<lambda>macd.
            andThen (CalculateRSI env klines 14) (\<lambda>rsi.
            andThen (CalculateBollingerBands env klines 20 2) (\<lambda>bb.
            andThen (CalculateATR env klines 14) (\<lambda>atr.
            andThen (if length klines \<ge> 28
                     then andThen (CalculateADX env klines 14) (\<lambda>adxValue.
                          (let vwapValue = CalculateVWAP env klines
                           in andThen (CalculateStochRSI env klines 14) (\<lambda>stochRSI.
                              Inr (if adxValue > 0 then Some adxValue else None,
                                   if vwapValue > 0 then Some vwapValue else None,
                                   stochRSI))))
                     else Inr (None, None, None)) (\<lambda>(adx, vwap, stochRSI).
            Inr (Some \<lparr>ClosePrice = formatPrice closePrice, HighPrice = formatPrice highPrice,
                       LowPrice = formatPrice lowPrice, OpenPrice = formatPrice openPrice,
                       EMA9 = ema9, EMA21 = ema21, EMA55 = ema55, MACD = macd, RSI = rsi,
                       BB = bb, ATR = atr, Volume = volume, ADX = adx, VWAP = vwap,
                       StochRSI = stochRSI\<rparr>)))))))))))"

text \<open>The snapshots. The \<^verbatim>\<open>Timeframes\<close> pointer is never \<^verbatim>\<open>nil\<close> in a snapshot and is
  modelled by the struct itself.\<close>

record ShortTermTimeframes =
  H1 :: "TimeframeData option"
  M15 :: "TimeframeData option"
  M5 :: "TimeframeData option"

record LongTermTimeframes =
  H4 :: "TimeframeData option"
  H1 :: "TimeframeData option"
  M15 :: "TimeframeData option"

record ShortTermIndicators =
  Symbol :: string
  Timestamp :: int64
  MarketData :: "MarketData option"
  Timeframes :: ShortTermTimeframes

record LongTermIndicators =
  Symbol :: string
  Timestamp :: int64
  MarketData :: "MarketData option"
  Timeframes :: LongTermTimeframes

text \<open>
  \<^verbatim>\<open>CalculateShortTermIndicators\<close>: no snapshot below 55 candles in any series. The final
  log line reads \<^verbatim>\<open>indicators.Timeframes.H1.ClosePrice\<close> (and the same for the two other
  timeframes), which panics on a \<^verbatim>\<open>nil\<close> timeframe.
\<close>

definition CalculateShortTermIndicators ::
    "Env \<Rightarrow> string \<Rightarrow> Kline list \<Rightarrow> Kline list \<Rightarrow> Kline list \<Rightarrow> panic + ShortTermIndicators option" where
  "CalculateShortTermIndicators env symbol klines1h klines15m klines5m =
     (if length klines1h < 55 \<or> length klines15m < 55 \<or> length klines5m < 55 then Inr None
      else andThen (calculateTimeframeData env klines1h ''1h'') (\<lambda>h1.
           andThen (calculateTimeframeData env klines15m ''15m'') (\<lambda>m15.
           andThen (calculateTimeframeData env klines5m ''5m'') (\<lambda>m5.
           (let indicators = \<lparr>ShortTermIndicators.Symbol = symbol,
                               ShortTermIndicators.Timestamp = Now env,
                               ShortTermIndicators.MarketData = None,
                               ShortTermIndicators.Timeframes =
                                 \<lparr>ShortTermTimeframes.H1 = h1, ShortTermTimeframes.M15 = m15,
                                  M5 = m5\<rparr>\<rparr>
            in if h1 = None \<or> m15 = None \<or> m5 = None then Inl NilPointerDereference
               else Inr (Some indicators))))))"

text \<open>
  \<^verbatim>\<open>CalculateShortTermIndicatorsWithMarket\<close>: the market data is attached when it is not
  \<^verbatim>\<open>nil\<close>; the log line that follows reads \<^verbatim>\<open>marketData.OICurrent\<close> without a check, a
  \<^verbatim>\<open>nil\<close> pointer dereference when the market data is \<^verbatim>\<open>nil\<close>.
\<close>

definition CalculateShortTermIndicatorsWithMarket ::
    "Env \<Rightarrow> string \<Rightarrow> Kline list \<Rightarrow> Kline list \<Rightarrow> Kline list \<Rightarrow> Client \<Rightarrow> OICache option
       \<Rightarrow> panic + ShortTermIndicators option" where
  "CalculateShortTermIndicatorsWithMarket env symbol klines1h klines15m klines5m client oiCache =
     andThen (CalculateShortTermIndicators env symbol klines1h klines15m klines5m) (\<lambda>r.
       case r of
         None \<Rightarrow> Inr None
       | Some indicators \<Rightarrow>
           (case M5 (ShortTermIndicators.Timeframes indicators) of
              None \<Rightarrow> Inl NilPointerDereference
            | Some m5 \<Rightarrow>
                (let currentPrice = ClosePrice m5;
                     marketData = CalculateMarketData env client symbol currentPrice oiCache;
                     indicators' = (case marketData of
                                      Some md \<Rightarrow>
                                        indicators\<lparr>ShortTermIndicators.MarketData := Some md\<rparr>
                                    | None \<Rightarrow> indicators)
                 in case marketData of
                      None \<Rightarrow> Inl NilPointerDereference
                    | Some md \<Rightarrow> Inr (Some indicators'))))"

text \<open>The long-term strategy: the same two functions on the 4h, 1h and 15m series; the
  current price is the 15m close.\<close>

definition CalculateLongTermIndicators ::
    "Env \<Rightarrow> string \<Rightarrow> Kline list \<Rightarrow> Kline list \<Rightarrow> Kline list \<Rightarrow> panic + LongTermIndicators option" where
  "CalculateLongTermIndicators env symbol klines4h klines1h klines15m =
     (if length klines4h < 55 \<or> length klines1h < 55 \<or> length klines15m < 55 then Inr None
      else andThen (calculateTimeframeData env klines4h ''4h'') (\<lambda>h4.
           andThen (calculateTimeframeData env klines1h ''1h'') (\<lambda>h1.
           andThen (calculateTimeframeData env klines15m ''15m'') (\<lambda>m15.
           (let indicators = \<lparr>LongTermIndicators.Symbol = symbol,
                               LongTermIndicators.Timestamp = Now env,
                               LongTermIndicators.MarketData = None,
                               LongTermIndicators.Timeframes =
                                 \<lparr>H4 = h4, LongTermTimeframes.H1 = h1,
                                  LongTermTimeframes.M15 = m15\<rparr>\<rparr>
            in if h4 = None \<or> h1 = None \<or> m15 = None then Inl NilPointerDereference
               else Inr (Some indicators))))))"

definition CalculateLongTermIndicatorsWithMarket ::
    "Env \<Rightarrow> string \<Rightarrow> Kline list \<Rightarrow> Kline list \<Rightarrow> Kline list \<Rightarrow> Client \<Rightarrow> OICache option
       \<Rightarrow> panic + LongTermIndicators option" where
  "CalculateLongTermIndicatorsWithMarket env symbol klines4h klines1h klines15m client oiCache =
     andThen (CalculateLongTermIndicators env symbol klines4h klines1h klines15m) (\<lambda>r.
       case r of
         None \<Rightarrow> Inr None
       | Some indicators \<Rightarrow>
           (case LongTermTimeframes.M15 (LongTermIndicators.Timeframes indicators) of
              None \<Rightarrow> Inl NilPointerDereference
            | Some m15 \<Rightarrow>
                (let currentPrice = ClosePrice m15;
                     marketData = CalculateMarketData env client symbol currentPrice oiCache;
                     indicators' = (case marketData of
                                      Some md \<Rightarrow>
                                        indicators\<lparr>LongTermIndicators.MarketData := Some md\<rparr>
                                    | None \<Rightarrow> indicators)
                 in case marketData of
                      None \<Rightarrow> Inl NilPointerDereference
                    | Some md \<Rightarrow> Inr (Some indicators'))))"

text \<open>
  The timeframe block as the specification describes it: the latest prices and volume, and
  every indicator computed by go-talib (EMA 9/21/55, MACD 12/26/9, RSI 14, Bollinger 20
  with two deviations, ATR 14, and ADX 14, VWAP and StochRSI 14), each taken from the last
  value of its series and rounded to two decimals (four for MACD); MACD, Bollinger and
  StochRSI are present, ADX and VWAP when positive. This definition is the reference that
  \<^verbatim>\<open>calculateTimeframeData\<close> is compared with; it has no length guards.
\<close>

definition populatedBlock :: "Env \<Rightarrow> Kline list \<Rightarrow> TimeframeData" where
  "populatedBlock env klines =
     (let closes = extractCloses env klines;
          (highs, lows, hlcCloses) = extractHLC env klines;
          (macd, signal, histogram) = talib_Macd env closes 12 26 9;
          (upper, middle, lower) = talib_BBands env closes 20 2 2;
          (fastK, fastD) = talib_StochRsi env closes 14 5 3;
          adxValue = formatPercent (last (talib_Adx env highs lows hlcCloses 14));
          vwapValue = CalculateVWAP env klines
      in \<lparr>ClosePrice = formatPrice (parseOrZero env (Close (last klines))),
          HighPrice = formatPrice (parseOrZero env (High (last klines))),
          LowPrice = formatPrice (parseOrZero env (Low (last klines))),
          OpenPrice = formatPrice (parseOrZero env (Open (last klines))),
          EMA9 = formatPrice (last (talib_Ema env closes 9)),
          EMA21 = formatPrice (last (talib_Ema env closes 21)),
          EMA55 = formatPrice (last (talib_Ema env closes 55)),
          MACD = Some \<lparr>DIF = formatMACD (last macd), DEA = formatMACD (last signal),
                        Histogram = formatMACD (last histogram)\<rparr>,
          RSI = formatPercent (last (talib_Rsi env closes 14)),
          BB = Some \<lparr>Upper = formatPrice (last upper), Middle = formatPrice (last middle),
                      Lower = formatPrice (last lower)\<rparr>,
          ATR = formatPrice (last (talib_Atr env highs lows hlcCloses 14)),
          Volume = formatPrice (parseOrZero env (Kline.Volume (last klines))),
          ADX = (if adxValue > 0 then Some adxValue else None),
          VWAP = (if vwapValue > 0 then Some vwapValue else None),
          StochRSI = Some \<lparr>K = formatPercent (last fastK), D = formatPercent (last fastD)\<rparr>\<rparr>)"

text \<open>The contract of go-talib that the indicator functions rely on: every output slice is
  as long as the input slice.\<close>

definition talibLengths :: "Env \<Rightarrow> bool" where
  "talibLengths env \<longleftrightarrow>
     (\<forall>xs p. length (talib_Ema env xs p) = length xs) \<and>
     (\<forall>xs p. length (talib_Rsi env xs p) = length xs) \<and>
     (\<forall>xs a b c. length (fst (talib_Macd env xs a b c)) = length xs \<and>
                  length (fst (snd (talib_Macd env xs a b c))) = length xs \<and>
                  length (snd (snd (talib_Macd env xs a b c))) = length xs) \<and>
     (\<forall>xs p u d. length (fst (talib_BBands env xs p u d)) = length xs \<and>
                  length (fst (snd (talib_BBands env xs p u d))) = length xs \<and>
                  length (snd (snd (talib_BBands env xs p u d))) = length xs) \<and>
     (\<forall>hs ls cs p. length (talib_Atr env hs ls cs p) = length cs) \<and>
     (\<forall>hs ls cs p. length (talib_Adx env hs ls cs p) = length cs) \<and>
     (\<forall>xs p k d. length (fst (talib_StochRsi env xs p k d)) = length xs \<and>
                  length (snd (talib_StochRsi env xs p k d)) = length xs)"

text \<open>More example data: a hundred candles, a client whose open-interest fetch fails, and a
  test for "a snapshot was returned".\<close>

definition demoKlines :: "Kline list" where
  "demoKlines = replicate 100 demoKline"

definition noOIClient :: Client where
  "noOIClient = demoClient\<lparr>GetOpenInterest := (\<lambda>symbol. Inl ''timeout'')\<rparr>"

definition returnsSnapshot :: "panic + 'a option \<Rightarrow> bool" where
  "returnsSnapshot r = (case r of Inr (Some x) \<Rightarrow> True | _ \<Rightarrow> False)"

subsection \<open>The strategy loops of the main program\<close>

text \<open>
  \<^verbatim>\<open>outputIndicators(data, accountID, strategy)\<close> writes the snapshot to the log; the
  model keeps the emitted snapshots, in order, as a list. (JSON marshalling cannot fail on
  the modelled values.)
\<close>

datatype Snapshot = ShortTerm ShortTermIndicators | LongTerm LongTermIndicators

type_synonym Output = "Snapshot \<times> string \<times> string"

definition outputIndicators :: "Output list \<Rightarrow> Snapshot \<Rightarrow> string \<Rightarrow> string \<Rightarrow> Output list" where
  "outputIndicators outs d accountID strategy = outs @ [(d, accountID, strategy)]"

text \<open>
  The body of the \<^verbatim>\<open>for _, symbol := range symbols\<close> loop of
  \<^verbatim>\<open>processShortTermStrategy\<close>. The state is the cache manager (shared and mutated in the
  source) and the snapshots emitted so far. Every \<^verbatim>\<open>continue\<close> returns the state
  unchanged; a panic is not recovered anywhere in the program and ends the tick.
  The cache is read with \<^verbatim>\<open>Get\<close> first, the indicators and the market data are computed
  from that copy, and only then \<^verbatim>\<open>Update\<close> stores the new open-interest value.
\<close>

definition processShortTermSymbol ::
    "Env \<Rightarrow> Client \<Rightarrow> string \<Rightarrow> OICacheManager \<times> Output list \<Rightarrow> string
       \<Rightarrow> panic + OICacheManager \<times> Output list" where
  "processShortTermSymbol env client accountID st symbol =
     (case GetKlines client symbol ''1h'' 100 of
        Inl err \<Rightarrow> Inr st
      | Inr klines1h \<Rightarrow>
     (case GetKlines client symbol ''15m'' 100 of
        Inl err \<Rightarrow> Inr st
      | Inr klines15m \<Rightarrow>
     (case GetKlines client symbol ''5m'' 100 of
        Inl err \<Rightarrow> Inr st
      | Inr klines5m \<Rightarrow>
          (let oiCacheManager = fst st;
               oiCache = (case Get oiCacheManager symbol of
                            None \<Rightarrow> \<lparr>OICache.Symbol = symbol, History = [], Timestamps = []\<rparr>
                          | Some c \<Rightarrow> c);
               indicatorOICache = \<lparr>OICache.Symbol = OICache.Symbol oiCache,
                                    History = History oiCache,
                                    Timestamps = Timestamps oiCache\<rparr>
           in andThen (CalculateShortTermIndicatorsWithMarket env symbol klines1h klines15m
                         klines5m client (Some indicatorOICache)) (\<lambda>result.
                case result of
                  None \<Rightarrow> Inr st
                | Some res \<Rightarrow>
                    andThen (case ShortTermIndicators.MarketData res of
                               None \<Rightarrow> Inr oiCacheManager
                             | Some md \<Rightarrow> Update oiCacheManager symbol (OICurrent md) (Now env))
                      (\<lambda>oiCacheManager'.
                         Inr (oiCacheManager',
                              outputIndicators (snd st) (ShortTerm res) accountID ''short_term'')))))))"

text \<open>\<^verbatim>\<open>processShortTermStrategy\<close>: the loop over the symbol pool.\<close>

fun processShortTermStrategy ::
    "Env \<Rightarrow> Client \<Rightarrow> string list \<Rightarrow> OICacheManager \<times> Output list \<Rightarrow> string
       \<Rightarrow> panic + OICacheManager \<times> Output list" where
  "processShortTermStrategy env client [] st accountID = Inr st"
| "processShortTermStrategy env client (symbol # symbols) st accountID =
     andThen (processShortTermSymbol env client accountID st symbol)
       (\<lambda>st'. processShortTermStrategy env client symbols st' accountID)"

text \<open>\<^verbatim>\<open>processLongTermStrategy\<close>: the same loop on the 4h, 1h and 15m candles.\<close>

definition processLongTermSymbol ::
    "Env \<Rightarrow> Client \<Rightarrow> string \<Rightarrow> OICacheManager \<times> Output list \<Rightarrow> string
       \<Rightarrow> panic + OICacheManager \<times> Output list" where
  "processLongTermSymbol env client accountID st symbol =
     (case GetKlines client symbol ''4h'' 100 of
        Inl err \<Rightarrow> Inr st
      | Inr klines4h \<Rightarrow>
     (case GetKlines client symbol ''1h'' 100 of
        Inl err \<Rightarrow> Inr st
      | Inr klines1h \<Rightarrow>
     (case GetKlines client symbol ''15m'' 100 of
        Inl err \<Rightarrow> Inr st
      | Inr klines15m \<Rightarrow>
          (let oiCacheManager = fst st;
               oiCache = (case Get oiCacheManager symbol of
                            None \<Rightarrow> \<lparr>OICache.Symbol = symbol, History = [], Timestamps = []\<rparr>
                          | Some c \<Rightarrow> c);
               indicatorOICache = \<lparr>OICache.Symbol = OICache.Symbol oiCache,
                                    History = History oiCache,
                                    Timestamps = Timestamps oiCache\<rparr>
           in andThen (CalculateLongTermIndicatorsWithMarket env symbol klines4h klines1h
                         klines15m client (Some indicatorOICache)) (\<lambda>result.
                case result of
                  None \<Rightarrow> Inr st
                | Some res \<Rightarrow>
                    andThen (case LongTermIndicators.MarketData res of
                               None \<Rightarrow> Inr oiCacheManager
                             | Some md \<Rightarrow> Update oiCacheManager symbol (OICurrent md) (Now env))
                      (\<lambda>oiCacheManager'.
                         Inr (oiCacheManager',
                              outputIndicators (snd st) (LongTerm res) accountID ''long_term'')))))))"

fun processLongTermStrategy ::
    "Env \<Rightarrow> Client \<Rightarrow> string list \<Rightarrow> OICacheManager \<times> Output list \<Rightarrow> string
       \<Rightarrow> panic + OICacheManager \<times> Output list" where
  "processLongTermStrategy env client [] st accountID = Inr st"
| "processLongTermStrategy env client (symbol # symbols) st accountID =
     andThen (processLongTermSymbol env client accountID st symbol)
       (\<lambda>st'. processLongTermStrategy env client symbols st' accountID)"

text \<open>
  A candle failure of a symbol: one of the three candle fetches returns an error, or one of
  the three series has fewer than 55 candles. Market data is available for a symbol when
  the open interest and the current funding rate can be fetched and parsed (this does not
  depend on the price, taken as 0 here).
\<close>

definition candleFailure :: "Client \<Rightarrow> string \<Rightarrow> string \<Rightarrow> string \<Rightarrow> string \<Rightarrow> bool" where
  "candleFailure client symbol tf1 tf2 tf3 =
     (case GetKlines client symbol tf1 100 of
        Inl err \<Rightarrow> True
      | Inr k1 \<Rightarrow>
     (case GetKlines client symbol tf2 100 of
        Inl err \<Rightarrow> True
      | Inr k2 \<Rightarrow>
     (case GetKlines client symbol tf3 100 of
        Inl err \<Rightarrow> True
      | Inr k3 \<Rightarrow> length k1 < 55 \<or> length k2 < 55 \<or> length k3 < 55)))"

definition candleFailureShort :: "Client \<Rightarrow> string \<Rightarrow> bool" where
  "candleFailureShort client symbol = candleFailure client symbol ''1h'' ''15m'' ''5m''"

definition candleFailureLong :: "Client \<Rightarrow> string \<Rightarrow> bool" where
  "candleFailureLong client symbol = candleFailure client symbol ''4h'' ''1h'' ''15m''"

definition marketDataAvailable :: "Env \<Rightarrow> Client \<Rightarrow> string \<Rightarrow> bool" where
  "marketDataAvailable env client symbol \<longleftrightarrow>
     CalculateOIMetrics env client symbol 0 \<noteq> None \<and>
     CalculateFundingMetrics env client symbol \<noteq> None"

text \<open>The symbol of an emitted snapshot.\<close>

fun snapshotSymbol :: "Output \<Rightarrow> string" where
  "snapshotSymbol (ShortTerm res, accountID, strategy) = ShortTermIndicators.Symbol res"
| "snapshotSymbol (LongTerm res, accountID, strategy) = LongTermIndicators.Symbol res"


text \<open>A pool of five symbols; the example client cannot fetch the candles of the second.\<close>

definition demoSymbols :: "string list" where
  "demoSymbols = [''BTCUSDT'', ''ETHUSDT'', ''BNBUSDT'', ''SOLUSDT'', ''XRPUSDT'']"

section \<open>Properties\<close>

subsection \<open>Rounding\<close>



subsection \<open>C4: the change rate\<close>




subsection \<open>The cache invariant\<close>

lemma alignedD:
  "aligned m \<Longrightarrow> caches m k = Some c \<Longrightarrow>
   length (Timestamps c) = length (History c) \<and> int (length (History c)) \<le> maxSize m"
  unfolding aligned_def by blast

lemma aligned_store:
  assumes "aligned m" and "length (Timestamps c) = length (History c)"
    and "int (length (History c)) \<le> maxSize m"
  shows "aligned (m\<lparr>caches := (caches m)(k \<mapsto> c)\<rparr>)"
  using assms unfolding aligned_def by simp

lemma Update_aligned:
  assumes "aligned m"
  shows "\<exists>m'. Update m k v t = Inr m' \<and> aligned m' \<and> maxSize m' = maxSize m \<and>
           (\<forall>k'. k' \<noteq> k \<longrightarrow> caches m' k' = caches m k') \<and>
           (\<exists>c. caches m' k = Some c \<and> History c = take (nat (maxSize m)) (v # historyOf m k))"
proof -
  define cache where "cache = (case caches m k of
                     None \<Rightarrow> \<lparr>OICache.Symbol = k, History = [], Timestamps = []\<rparr>
                   | Some c \<Rightarrow> c)"
  define M where "M = nat (maxSize m)"
  define c' where "c' = cache\<lparr>History := take M (v # History cache),
                             Timestamps := take M (t # Timestamps cache)\<rparr>"
  have M: "0 \<le> maxSize m"
    using assms by (simp add: aligned_def)
  have len: "length (Timestamps cache) = length (History cache)"
    using alignedD [OF assms, of k] by (simp add: cache_def split: option.splits)
  have h: "historyOf m k = History cache"
    by (simp add: historyOf_def Get_def cache_def split: option.splits)
  have U: "Update m k v t = Inr (m\<lparr>caches := (caches m)(k \<mapsto> c')\<rparr>)"
  proof (cases "int (length (v # History cache)) > maxSize m")
    case True
    then have "sliceTo (v # History cache) (maxSize m) = Inr (take M (v # History cache))"
      and "sliceTo (t # Timestamps cache) (maxSize m) = Inr (take M (t # Timestamps cache))"
      using M len by (simp_all add: sliceTo_def M_def)
    with True show ?thesis
      unfolding Update_def Let_def cache_def [symmetric] andThen_def c'_def by simp
  next
    case False
    then have "take M (v # History cache) = v # History cache"
      and "take M (t # Timestamps cache) = t # Timestamps cache"
      using len by (simp_all add: M_def)
    with False show ?thesis
      unfolding Update_def Let_def cache_def [symmetric] andThen_def c'_def by simp
  qed
  have "length (Timestamps c') = length (History c')"
    using len by (simp add: c'_def)
  moreover have "int (length (History c')) \<le> maxSize m"
    using M by (simp add: c'_def M_def)
  ultimately have "aligned (m\<lparr>caches := (caches m)(k \<mapsto> c')\<rparr>)"
    using assms by (rule aligned_store [rotated])
  moreover have "History c' = take (nat (maxSize m)) (v # historyOf m k)"
    by (simp add: c'_def h M_def)
  ultimately show ?thesis
    unfolding U by simp
qed

lemma take_append_take: "take n (xs @ take n ys) = take n (xs @ ys)"
  by (simp add: min_def)

lemma updatesOf_Cons:
  "updatesOf k ((k', v, t) # us) = (if k' = k then v # updatesOf k us else updatesOf k us)"
  by (simp add: updatesOf_def)

lemma applyUpdates_aligned:
  "aligned m \<Longrightarrow>
   \<exists>m'. applyUpdates m us = Inr m' \<and> aligned m' \<and> maxSize m' = maxSize m \<and>
     (\<forall>k. historyOf m' k = take (nat (maxSize m)) (rev (updatesOf k us) @ historyOf m k)) \<and>
     (\<forall>k. Get m' k = None \<longleftrightarrow> Get m k = None \<and> updatesOf k us = [])"
proof (induction us arbitrary: m)
  case Nil
  have "historyOf m k = take (nat (maxSize m)) (historyOf m k)" for k
  proof (cases "caches m k")
    case None
    then show ?thesis
      by (simp add: historyOf_def Get_def)
  next
    case (Some c)
    with alignedD [OF Nil, of k c] have "length (History c) \<le> nat (maxSize m)"
      by linarith
    with Some show ?thesis
      by (simp add: historyOf_def Get_def)
  qed
  with Nil show ?case
    by (simp add: updatesOf_def)
next
  case (Cons u us)
  obtain k0 v t where u: "u = (k0, v, t)"
    by (cases u) auto
  from Update_aligned [OF Cons.prems, of k0 v t]
  obtain m1 c1 where U: "Update m k0 v t = Inr m1" and a1: "aligned m1"
    and M1: "maxSize m1 = maxSize m"
    and other: "\<And>k'. k' \<noteq> k0 \<Longrightarrow> caches m1 k' = caches m k'"
    and c1: "caches m1 k0 = Some c1" "History c1 = take (nat (maxSize m)) (v # historyOf m k0)"
    by blast
  from Cons.IH [OF a1]
  obtain m' where A: "applyUpdates m1 us = Inr m'" and a': "aligned m'"
    and M': "maxSize m' = maxSize m1"
    and H: "\<And>k. historyOf m' k = take (nat (maxSize m1)) (rev (updatesOf k us) @ historyOf m1 k)"
    and G: "\<And>k. Get m' k = None \<longleftrightarrow> Get m1 k = None \<and> updatesOf k us = []"
    by blast
  have run: "applyUpdates m (u # us) = Inr m'"
    by (simp add: u U A andThen_def)
  have hist: "historyOf m' k = take (nat (maxSize m)) (rev (updatesOf k (u # us)) @ historyOf m k)" for k
  proof (cases "k = k0")
    case True
    have "historyOf m1 k0 = take (nat (maxSize m)) (v # historyOf m k0)"
      using c1 by (simp add: historyOf_def Get_def)
    then show ?thesis
      using H [of k0] True by (simp add: u updatesOf_Cons M1 take_append_take)
  next
    case False
    then have "historyOf m1 k = historyOf m k"
      using other [of k] by (simp add: historyOf_def Get_def)
    then show ?thesis
      using H [of k] False by (simp add: u updatesOf_Cons M1)
  qed
  have get: "Get m' k = None \<longleftrightarrow> Get m k = None \<and> updatesOf k (u # us) = []" for k
  proof (cases "k = k0")
    case True
    then show ?thesis
      using G [of k0] c1 by (simp add: u updatesOf_Cons Get_def)
  next
    case False
    then show ?thesis
      using G [of k] other [of k] by (simp add: u updatesOf_Cons Get_def)
  qed
  from run a' M' M1 hist get show ?case
    by auto
qed

lemma UpdateOICache_aligned:
  assumes "0 \<le> n" and "alignedCache c"
  shows "\<exists>c'. UpdateOICache c v t n = Inr c' \<and> alignedCache (Some c') \<and>
           History c' = take (nat n) (v # historyOfCache c)"
proof -
  define cache where "cache = (case c of
                     None \<Rightarrow> \<lparr>OICache.Symbol = [], History = [], Timestamps = []\<rparr>
                   | Some c \<Rightarrow> c)"
  define c' where "c' = cache\<lparr>History := take (nat n) (v # History cache),
                             Timestamps := take (nat n) (t # Timestamps cache)\<rparr>"
  have len: "length (Timestamps cache) = length (History cache)"
    using assms(2) by (simp add: cache_def alignedCache_def split: option.splits)
  have h: "historyOfCache c = History cache"
    by (simp add: historyOfCache_def cache_def split: option.splits)
  have U: "UpdateOICache c v t n = Inr c'"
  proof (cases "int (length (v # History cache)) > n")
    case True
    then have "sliceTo (v # History cache) n = Inr (take (nat n) (v # History cache))"
      and "sliceTo (t # Timestamps cache) n = Inr (take (nat n) (t # Timestamps cache))"
      using assms(1) len by (simp_all add: sliceTo_def)
    with True show ?thesis
      unfolding UpdateOICache_def Let_def cache_def [symmetric] andThen_def c'_def by simp
  next
    case False
    then have "take (nat n) (v # History cache) = v # History cache"
      and "take (nat n) (t # Timestamps cache) = t # Timestamps cache"
      using len by simp_all
    with False show ?thesis
      unfolding UpdateOICache_def Let_def cache_def [symmetric] andThen_def c'_def by simp
  qed
  have "alignedCache (Some c')"
    using len by (simp add: alignedCache_def c'_def)
  moreover have "History c' = take (nat n) (v # historyOfCache c)"
    by (simp add: c'_def h)
  ultimately show ?thesis
    using U by simp
qed

lemma applyUpdateOICache_aligned:
  "0 \<le> n \<Longrightarrow> alignedCache c \<Longrightarrow> length (historyOfCache c) \<le> nat n \<Longrightarrow>
   \<exists>c'. applyUpdateOICache c us n = Inr c' \<and>
     historyOfCache c' = take (nat n) (rev (map fst us) @ historyOfCache c) \<and>
     (c' = None \<longleftrightarrow> c = None \<and> us = [])"
proof (induction us arbitrary: c)
  case Nil
  then show ?case
    by simp
next
  case (Cons u us)
  obtain v t where u: "u = (v, t)"
    by (cases u) auto
  from UpdateOICache_aligned [OF Cons.prems(1,2), of v t]
  obtain c1 where U: "UpdateOICache c v t n = Inr c1" and a1: "alignedCache (Some c1)"
    and h1: "History c1 = take (nat n) (v # historyOfCache c)"
    by blast
  have "length (historyOfCache (Some c1)) \<le> nat n"
    by (simp add: historyOfCache_def h1)
  from Cons.IH [OF Cons.prems(1) a1 this]
  obtain c' where A: "applyUpdateOICache (Some c1) us n = Inr c'"
    and H: "historyOfCache c' = take (nat n) (rev (map fst us) @ historyOfCache (Some c1))"
    and N: "c' \<noteq> None"
    by auto
  have "applyUpdateOICache c (u # us) n = Inr c'"
    by (simp add: u U A andThen_def)
  moreover have "historyOfCache c' = take (nat n) (rev (map fst (u # us)) @ historyOfCache c)"
    using H by (simp add: u h1 historyOfCache_def take_append_take)
  ultimately show ?case
    using N by simp
qed

lemma take_rev_lastN: "take n (rev xs) = rev (lastN (min n (length xs)) xs)"
  by (simp add: lastN_def take_rev min_def)

lemma aligned_New: "aligned (NewOICacheManager n)"
  by (simp add: aligned_def NewOICacheManager_def)

subsection \<open>C3: the history is the last updates, newest first\<close>

text \<open>
  C3: for every sequence of \<^verbatim>\<open>Update\<close> calls on a manager built by
  \<^verbatim>\<open>NewOICacheManager\<close>, no call panics, and \<^verbatim>\<open>Get(key)\<close> afterwards is \<^verbatim>\<open>nil\<close> when
  the key was never updated and otherwise a cache whose history has at most \<open>maxSize\<close>
  entries and is exactly the last \<open>min(maxSize, number of updates)\<close> values written for
  that key, newest first. Here \<open>maxSize\<close> is the capacity of the manager (the argument of
  the constructor, or 5 when that is not positive). The same holds for a sequence of
  \<^verbatim>\<open>UpdateOICache\<close> calls that starts from a \<^verbatim>\<open>nil\<close> cache, for every capacity that is
  not negative.
\<close>

theorem C3_cache_history:
  "(\<exists>m. applyUpdates (NewOICacheManager n) us = Inr m \<and>
      maxSize m = (if n \<le> 0 then 5 else n) \<and>
      (case Get m k of
         None \<Rightarrow> updatesOf k us = []
       | Some c \<Rightarrow>
           updatesOf k us \<noteq> [] \<and>
           int (length (History c)) \<le> maxSize m \<and>
           History c = rev (lastN (min (nat (maxSize m)) (length (updatesOf k us)))
                              (updatesOf k us)))) \<and>
   (0 \<le> cap \<longrightarrow>
     (\<exists>r. applyUpdateOICache None vts cap = Inr r \<and>
        (case r of
           None \<Rightarrow> vts = []
         | Some c \<Rightarrow>
             vts \<noteq> [] \<and>
             int (length (History c)) \<le> cap \<and>
             History c = rev (lastN (min (nat cap) (length vts)) (map fst vts)))))"
proof (intro conjI impI)
  let ?m0 = "NewOICacheManager n"
  from applyUpdates_aligned [OF aligned_New, of n us]
  obtain m where A: "applyUpdates ?m0 us = Inr m" and M: "maxSize m = maxSize ?m0"
    and H: "\<And>k. historyOf m k = take (nat (maxSize ?m0)) (rev (updatesOf k us) @ historyOf ?m0 k)"
    and G: "\<And>k. Get m k = None \<longleftrightarrow> Get ?m0 k = None \<and> updatesOf k us = []"
    by blast
  have M': "maxSize m = (if n \<le> 0 then 5 else n)"
    by (simp add: M NewOICacheManager_def)
  have e: "historyOf ?m0 k = []" "Get ?m0 k = None"
    by (simp_all add: historyOf_def Get_def NewOICacheManager_def)
  have hk: "historyOf m k = rev (lastN (min (nat (maxSize m)) (length (updatesOf k us))) (updatesOf k us))"
    using H [of k] by (simp add: e M take_rev_lastN)
  have "case Get m k of
         None \<Rightarrow> updatesOf k us = []
       | Some c \<Rightarrow>
           updatesOf k us \<noteq> [] \<and>
           int (length (History c)) \<le> maxSize m \<and>
           History c = rev (lastN (min (nat (maxSize m)) (length (updatesOf k us)))
                              (updatesOf k us))"
  proof (cases "Get m k")
    case None
    with G [of k] show ?thesis
      by simp
  next
    case (Some c)
    with G [of k] e have ne: "updatesOf k us \<noteq> []"
      by auto
    have hc: "History c = rev (lastN (min (nat (maxSize m)) (length (updatesOf k us))) (updatesOf k us))"
      using hk Some by (simp add: historyOf_def)
    have "length (History c) \<le> nat (maxSize m)"
      unfolding hc by (simp add: lastN_def)
    moreover have "0 < maxSize m"
      using M' by (simp split: if_splits)
    ultimately have "int (length (History c)) \<le> maxSize m"
      by linarith
    with Some ne hc show ?thesis
      by simp
  qed
  with A M' show "\<exists>m. applyUpdates (NewOICacheManager n) us = Inr m \<and>
      maxSize m = (if n \<le> 0 then 5 else n) \<and>
      (case Get m k of
         None \<Rightarrow> updatesOf k us = []
       | Some c \<Rightarrow>
           updatesOf k us \<noteq> [] \<and>
           int (length (History c)) \<le> maxSize m \<and>
           History c = rev (lastN (min (nat (maxSize m)) (length (updatesOf k us)))
                              (updatesOf k us)))"
    by blast
next
  assume cap: "0 \<le> cap"
  have "alignedCache None" "length (historyOfCache None) \<le> nat cap"
    by (simp_all add: alignedCache_def historyOfCache_def)
  from applyUpdateOICache_aligned [OF cap this, of vts]
  obtain r where A: "applyUpdateOICache None vts cap = Inr r"
    and H: "historyOfCache r = take (nat cap) (rev (map fst vts) @ historyOfCache None)"
    and N: "r = None \<longleftrightarrow> vts = []"
    by auto
  have hr: "historyOfCache r = rev (lastN (min (nat cap) (length vts)) (map fst vts))"
    using H take_rev_lastN [of "nat cap" "map fst vts"] by (simp add: historyOfCache_def)
  have "case r of
           None \<Rightarrow> vts = []
         | Some c \<Rightarrow>
             vts \<noteq> [] \<and>
             int (length (History c)) \<le> cap \<and>
             History c = rev (lastN (min (nat cap) (length vts)) (map fst vts))"
  proof (cases r)
    case None
    with N show ?thesis
      by simp
  next
    case (Some c)
    with hr have hc: "History c = rev (lastN (min (nat cap) (length vts)) (map fst vts))"
      by (simp add: historyOfCache_def)
    have "length (History c) \<le> nat cap"
      unfolding hc by (simp add: lastN_def)
    with cap have "int (length (History c)) \<le> cap"
      by linarith
    with Some N hc show ?thesis
      by simp
  qed
  with A show "\<exists>r. applyUpdateOICache None vts cap = Inr r \<and>
        (case r of
           None \<Rightarrow> vts = []
         | Some c \<Rightarrow>
             vts \<noteq> [] \<and>
             int (length (History c)) \<le> cap \<and>
             History c = rev (lastN (min (nat cap) (length vts)) (map fst vts)))"
    by blast
qed

text \<open>The scenario of the specification: capacity 5, the values 10 to 16 in order (with
  an update of another symbol in between) give \<open>[16, 15, 14, 13, 12]\<close>.\<close>

theorem C3_cache_history_witness:
  "(0::int) \<le> 5 \<and>
   (\<exists>m c. applyUpdates (NewOICacheManager 5) sevenUpdates = Inr m \<and>
      Get m ''BTCUSDT'' = Some c \<and> History c = [16, 15, 14, 13, 12]) \<and>
   (\<exists>c. applyUpdateOICache None
          [(10, 100), (11, 200), (12, 300), (13, 400), (14, 500), (15, 600), (16, 700)] 5
        = Inr (Some c) \<and> History c = [16, 15, 14, 13, 12])"
proof -
  let ?vts = "[(10, 100), (11, 200), (12, 300), (13, 400), (14, 500), (15, 600), (16, 700)]
                :: (float64 \<times> int64) list"
  have cap: "(0::int) \<le> 5"
    by simp
  have vs: "updatesOf ''BTCUSDT'' sevenUpdates = [10, 11, 12, 13, 14, 15, 16]"
    by (simp add: updatesOf_def sevenUpdates_def)
  from C3_cache_history [of 5 sevenUpdates "''BTCUSDT''" 5 ?vts] cap
  obtain m r where m: "applyUpdates (NewOICacheManager 5) sevenUpdates = Inr m" "maxSize m = 5"
      "case Get m ''BTCUSDT'' of
         None \<Rightarrow> updatesOf ''BTCUSDT'' sevenUpdates = []
       | Some c \<Rightarrow>
           updatesOf ''BTCUSDT'' sevenUpdates \<noteq> [] \<and>
           int (length (History c)) \<le> maxSize m \<and>
           History c = rev (lastN (min (nat (maxSize m)) (length (updatesOf ''BTCUSDT'' sevenUpdates)))
                              (updatesOf ''BTCUSDT'' sevenUpdates))"
    and r: "applyUpdateOICache None ?vts 5 = Inr r"
      "case r of
           None \<Rightarrow> ?vts = []
         | Some c \<Rightarrow>
             ?vts \<noteq> [] \<and>
             int (length (History c)) \<le> 5 \<and>
             History c = rev (lastN (min (nat 5) (length ?vts)) (map fst ?vts))"
    by auto
  from m(3) obtain c where c: "Get m ''BTCUSDT'' = Some c" "History c = [16, 15, 14, 13, 12]"
    by (cases "Get m ''BTCUSDT''") (simp_all add: vs m(2) lastN_def)
  from r(2) obtain c' where c': "r = Some c'" "History c' = [16, 15, 14, 13, 12]"
    by (cases r) (simp_all add: lastN_def)
  from cap m(1) c r(1) c' show ?thesis
    by blast
qed

subsection \<open>C9: expiry\<close>

lemma sint_diff_in_range:
  fixes a b :: int64
  assumes "- (2 ^ 63) \<le> sint a - sint b" and "sint a - sint b < 2 ^ 63"
  shows "sint (a - b) = sint a - sint b"
proof -
  have "sint (a - b) = signed_take_bit 63 (sint a - sint b)"
    by (simp add: sint_word_ariths)
  also have "\<dots> = sint a - sint b"
    using assms by (simp add: signed_take_bit_int_eq_self)
  finally show ?thesis .
qed

text \<open>
  C9, as stated: \<^verbatim>\<open>IsExpired\<close> is true exactly when the key is unknown, or has no
  samples, or the newest sample is more than \<open>maxAge\<close> seconds older than the current
  time. The difference is computed in \<^verbatim>\<open>int64\<close>: for a sample with timestamp
  \<open>-2^63\<close>, written by one \<^verbatim>\<open>Update\<close> call, and the current time 1700000000 the
  difference wraps to a negative number, and the sample, although older than 3600 seconds,
  is reported as not expired.
\<close>

theorem C9_counterexample:
  "Update (NewOICacheManager 5) ''BTCUSDT'' 1 (- 9223372036854775808) = Inr ancientManager \<and>
   sint (3600 :: int64) < sint (1700000000 :: int64) - sint (- 9223372036854775808 :: int64) \<and>
   \<not> IsExpired 1700000000 ancientManager ''BTCUSDT'' 3600"
  by (simp add: Update_def NewOICacheManager_def ancientManager_def IsExpired_def Get_def)

text \<open>
  C9, amended: provided the difference between the current time and the newest timestamp of
  the key fits into an \<^verbatim>\<open>int64\<close> (as it does for all Unix timestamps of real
  observations), \<^verbatim>\<open>IsExpired(key, maxAge)\<close> is true exactly when the key is unknown to the
  cache, or its entry has no samples, or the newest sample's timestamp is more than
  \<open>maxAge\<close> seconds older than the current time.
\<close>

theorem C9_is_expired:
  assumes "\<And>c t ts. Get m k = Some c \<Longrightarrow> Timestamps c = t # ts \<Longrightarrow>
             - (2 ^ 63) \<le> sint now - sint t \<and> sint now - sint t < 2 ^ 63"
  shows "IsExpired now m k maxAge \<longleftrightarrow>
           Get m k = None \<or>
           (\<exists>c. Get m k = Some c \<and>
              (Timestamps c = [] \<or> sint maxAge < sint now - sint (hd (Timestamps c))))"
proof (cases "Get m k")
  case None
  then show ?thesis
    by (simp add: IsExpired_def)
next
  case (Some c)
  show ?thesis
  proof (cases "Timestamps c")
    case Nil
    with Some show ?thesis
      by (simp add: IsExpired_def)
  next
    case (Cons t ts)
    from assms [OF Some Cons] have "sint (now - t) = sint now - sint t"
      by (intro sint_diff_in_range) simp_all
    with Some Cons show ?thesis
      by (simp add: IsExpired_def)
  qed
qed

theorem C9_is_expired_witness:
  "Update (NewOICacheManager 5) ''BTCUSDT'' 1 1699990000 = Inr recentManager \<and>
   IsExpired 1700000000 recentManager ''BTCUSDT'' 3600 \<and>
   \<not> IsExpired 1700000000 recentManager ''BTCUSDT'' 86400 \<and>
   IsExpired 1700000000 recentManager ''ETHUSDT'' 86400"
proof -
  have range: "- (2 ^ 63) \<le> sint (1700000000 :: int64) - sint t \<and>
               sint (1700000000 :: int64) - sint t < 2 ^ 63"
    if "Get recentManager k = Some c" and "Timestamps c = t # ts" for k c t ts
  proof -
    from that have "t = 1699990000"
      by (auto simp: recentManager_def Get_def split: if_splits)
    then show ?thesis
      by simp
  qed
  have g: "Get recentManager ''BTCUSDT'' =
             Some \<lparr>OICache.Symbol = ''BTCUSDT'', History = [1], Timestamps = [1699990000]\<rparr>"
      "Get recentManager ''ETHUSDT'' = None"
    by (simp_all add: recentManager_def Get_def)
  have "Update (NewOICacheManager 5) ''BTCUSDT'' 1 1699990000 = Inr recentManager"
    by (simp add: Update_def NewOICacheManager_def recentManager_def)
  moreover have "IsExpired 1700000000 recentManager ''BTCUSDT'' 3600"
    by (subst C9_is_expired) (fact range, simp add: g)
  moreover have "\<not> IsExpired 1700000000 recentManager ''BTCUSDT'' 86400"
    by (subst C9_is_expired) (fact range, simp add: g)
  moreover have "IsExpired 1700000000 recentManager ''ETHUSDT'' 86400"
    by (subst C9_is_expired) (fact range, simp add: g)
  ultimately show ?thesis
    by blast
qed

subsection \<open>Market data\<close>

lemma demo_OIMetrics:
  "CalculateOIMetrics demoEnv demoClient symbol 50000 = Some \<lparr>OIMetrics.Current = 50000000\<rparr>"
  by (simp add: CalculateOIMetrics_def demoEnv_def demoClient_def parseDecimal_def digitOf_def
      formatPrice_def goRound_def)

lemma demo_FundingMetrics:
  "CalculateFundingMetrics demoEnv demoClient symbol =
     Some \<lparr>FundingMetrics.Current = 1 / 100, Avg3 = 2 / 100\<rparr>"
  by (simp add: CalculateFundingMetrics_def sumRates_def demoEnv_def demoClient_def
      parseDecimal_def digitOf_def formatPercent_def goRound_def)

lemma CalculateMarketData_fields:
  assumes "CalculateMarketData env client symbol price oiCache = Some md"
  shows "\<exists>oi fm. CalculateOIMetrics env client symbol price = Some oi \<and>
     CalculateFundingMetrics env client symbol = Some fm \<and>
     OICurrent md = formatPrice (OIMetrics.Current oi / 1000000) \<and>
     OIHistory md = historyOfCache oiCache \<and>
     OIChange5m md = (if 2 \<le> length (historyOfCache oiCache)
        then Some (calculateOIChangeRate (OIMetrics.Current oi / 1000000) (historyOfCache oiCache ! 0))
        else None) \<and>
     OIChange15m md = (if 4 \<le> length (historyOfCache oiCache)
        then Some (calculateOIChangeRate (OIMetrics.Current oi / 1000000) (historyOfCache oiCache ! 2))
        else None) \<and>
     OIChange25m md = (if 5 \<le> length (historyOfCache oiCache)
        then Some (calculateOIChangeRate (OIMetrics.Current oi / 1000000) (historyOfCache oiCache ! 4))
        else None) \<and>
     OIChange45m md = OIChange25m md \<and>
     OIChange75m md = None \<and>
     MarketData.FundingRate md = FundingMetrics.Current fm \<and>
     FundingAvg3 md = Avg3 fm"
proof -
  from assms obtain oi where oi: "CalculateOIMetrics env client symbol price = Some oi"
    by (auto simp: CalculateMarketData_def split: option.splits)
  from assms oi obtain fm where fm: "CalculateFundingMetrics env client symbol = Some fm"
    by (auto simp: CalculateMarketData_def split: option.splits)
  show ?thesis
  proof (cases oiCache)
    case None
    with assms oi fm show ?thesis
      by (auto simp: CalculateMarketData_def historyOfCache_def)
  next
    case (Some cache)
    with assms oi fm show ?thesis
      by (auto simp: CalculateMarketData_def historyOfCache_def Let_def split: if_splits)
  qed
qed
lemma demo_MarketData_five:
  "CalculateMarketData demoEnv demoClient ''BTCUSDT'' 50000 (Some (cacheOf [49, 48, 47, 46, 40]))
   = Some demoMarketData"
  by (simp add: CalculateMarketData_def demo_OIMetrics demo_FundingMetrics cacheOf_def
      calculateOIChangeRate_def formatPercent_def formatPrice_def goRound_def demoMarketData_def)

lemma formatPercent_zero: "formatPercent 0 = 0"
  by (simp add: formatPercent_def goRound_def)

subsection \<open>C1: which offsets are present\<close>

text \<open>
  C1, as stated: the change for offset \<open>o\<close> is present if and only if the history has at
  least \<open>o + 1\<close> entries. With one entry the 5-minute field is absent, and with three
  entries the 15-minute field is absent, although the market data was computed.
\<close>

theorem C1_counterexample:
  "map_option OIChange5m
     (CalculateMarketData demoEnv demoClient ''BTCUSDT'' 50000 (Some (cacheOf [49]))) = Some None \<and>
   map_option OIChange15m
     (CalculateMarketData demoEnv demoClient ''BTCUSDT'' 50000 (Some (cacheOf [49, 48, 47])))
     = Some None"
  by (simp add: CalculateMarketData_def demo_OIMetrics demo_FundingMetrics cacheOf_def)

text \<open>
  C1, amended: whenever \<^verbatim>\<open>CalculateMarketData\<close> returns market data for a history buffer of
  length \<open>k\<close> (0 for a \<^verbatim>\<open>nil\<close> cache), \<^verbatim>\<open>OIChange5m\<close> (offset 0) is present if and only
  if \<open>k \<ge> 2\<close>, \<^verbatim>\<open>OIChange15m\<close> (offset 2) if and only if \<open>k \<ge> 4\<close>, and
  \<^verbatim>\<open>OIChange25m\<close> (offset 4) if and only if \<open>k \<ge> 5\<close>; an absent field is \<^verbatim>\<open>nil\<close>, not
  zero.
\<close>

theorem C1_offsets_present:
  assumes "CalculateMarketData env client symbol price oiCache = Some md"
  shows "(OIChange5m md \<noteq> None \<longleftrightarrow> 2 \<le> length (historyOfCache oiCache)) \<and>
         (OIChange15m md \<noteq> None \<longleftrightarrow> 4 \<le> length (historyOfCache oiCache)) \<and>
         (OIChange25m md \<noteq> None \<longleftrightarrow> 5 \<le> length (historyOfCache oiCache))"
  using CalculateMarketData_fields [OF assms] by (auto split: if_splits)

theorem C1_offsets_present_witness:
  "CalculateMarketData demoEnv demoClient ''BTCUSDT'' 50000
           (Some (cacheOf [49, 48, 47, 46, 40])) = Some demoMarketData \<and>
   OIChange5m demoMarketData \<noteq> None \<and> OIChange15m demoMarketData \<noteq> None \<and>
   OIChange25m demoMarketData \<noteq> None"
  using C1_offsets_present [OF demo_MarketData_five] demo_MarketData_five
  by (simp add: historyOfCache_def cacheOf_def)

subsection \<open>C8: the 45 and the 75 minute fields\<close>

text \<open>
  C8: in every market-data value that \<^verbatim>\<open>CalculateMarketData\<close> returns, \<^verbatim>\<open>OIChange45m\<close>
  is present exactly when \<^verbatim>\<open>OIChange25m\<close> is, with the same value, and \<^verbatim>\<open>OIChange75m\<close>
  is absent. \<^verbatim>\<open>CalculateMarketData\<close> is the only function that builds a market-data value.
\<close>

theorem C8_extra_offsets:
  assumes "CalculateMarketData env client symbol price oiCache = Some md"
  shows "OIChange45m md = OIChange25m md \<and>
         (OIChange45m md \<noteq> None \<longleftrightarrow> OIChange25m md \<noteq> None) \<and>
         OIChange75m md = None"
  using CalculateMarketData_fields [OF assms] by (auto split: if_splits)

theorem C8_extra_offsets_witness:
  "CalculateMarketData demoEnv demoClient ''BTCUSDT'' 50000
           (Some (cacheOf [49, 48, 47, 46, 40])) = Some demoMarketData \<and>
   OIChange45m demoMarketData = OIChange25m demoMarketData \<and>
   OIChange25m demoMarketData = Some 25 \<and> OIChange75m demoMarketData = None"
  using C8_extra_offsets [OF demo_MarketData_five] demo_MarketData_five
  by (simp add: demoMarketData_def)

subsection \<open>C10: the average when the history cannot be fetched\<close>

text \<open>
  C10: when the current funding rate is obtained (the premium index is fetched and its
  rate parses) and the fetch of the history fails, \<^verbatim>\<open>CalculateFundingMetrics\<close> returns a
  result with \<^verbatim>\<open>Avg3 = 0\<close>; and for every history that is fetched and whose parsed rates
  sum to zero the result is the very same value, so a caller cannot tell the two apart.
\<close>

theorem C10_funding_history_failure:
  assumes "GetPremiumIndex client symbol = Inr premium"
    and "ParseFloat env (LastFundingRate premium) = Some currentRate"
    and "GetFundingRateHistory client symbol 3 = Inl err"
  shows "CalculateFundingMetrics env client symbol =
           Some \<lparr>FundingMetrics.Current = formatPercent (currentRate * 100), Avg3 = 0\<rparr> \<and>
         (\<forall>fundingRates. fst (sumRates env fundingRates) = 0 \<longrightarrow>
            CalculateFundingMetrics env
              (client\<lparr>GetFundingRateHistory := (\<lambda>s limit. Inr fundingRates)\<rparr>) symbol =
            CalculateFundingMetrics env client symbol)"
proof (intro conjI allI impI)
  show failed: "CalculateFundingMetrics env client symbol =
           Some \<lparr>FundingMetrics.Current = formatPercent (currentRate * 100), Avg3 = 0\<rparr>"
    using assms by (simp add: CalculateFundingMetrics_def)
  fix fundingRates
  assume zero: "fst (sumRates env fundingRates) = 0"
  obtain count where "sumRates env fundingRates = (0, count)"
    using zero by (cases "sumRates env fundingRates") simp
  then have "CalculateFundingMetrics env
              (client\<lparr>GetFundingRateHistory := (\<lambda>s limit. Inr fundingRates)\<rparr>) symbol =
           Some \<lparr>FundingMetrics.Current = formatPercent (currentRate * 100), Avg3 = 0\<rparr>"
    using assms(1,2) by (simp add: CalculateFundingMetrics_def formatPercent_zero)
  with failed show "CalculateFundingMetrics env
              (client\<lparr>GetFundingRateHistory := (\<lambda>s limit. Inr fundingRates)\<rparr>) symbol =
            CalculateFundingMetrics env client symbol"
    by simp
qed

theorem C10_funding_history_failure_witness:
  "GetPremiumIndex noHistoryClient ''BTCUSDT'' = Inr \<lparr>LastFundingRate = ''0.0001''\<rparr> \<and>
   ParseFloat demoEnv ''0.0001'' = Some (1 / 10000) \<and>
   GetFundingRateHistory noHistoryClient ''BTCUSDT'' 3 = Inl ''timeout'' \<and>
   CalculateFundingMetrics demoEnv noHistoryClient ''BTCUSDT'' =
     Some \<lparr>FundingMetrics.Current = 1 / 100, Avg3 = 0\<rparr> \<and>
   fst (sumRates demoEnv [\<lparr>FundingRate.FundingRate = ''0.0002''\<rparr>,
                          \<lparr>FundingRate.FundingRate = ''-0.0002''\<rparr>]) = 0 \<and>
   CalculateFundingMetrics demoEnv
     (noHistoryClient\<lparr>GetFundingRateHistory :=
        (\<lambda>s limit. Inr [\<lparr>FundingRate.FundingRate = ''0.0002''\<rparr>,
                          \<lparr>FundingRate.FundingRate = ''-0.0002''\<rparr>])\<rparr>) ''BTCUSDT'' =
     Some \<lparr>FundingMetrics.Current = 1 / 100, Avg3 = 0\<rparr>"
proof -
  have p: "GetPremiumIndex noHistoryClient ''BTCUSDT'' = Inr \<lparr>LastFundingRate = ''0.0001''\<rparr>"
    by (simp add: noHistoryClient_def demoClient_def)
  have f: "ParseFloat demoEnv (LastFundingRate \<lparr>LastFundingRate = ''0.0001''\<rparr>) = Some (1 / 10000)"
    by (simp add: demoEnv_def parseDecimal_def digitOf_def)
  have h: "GetFundingRateHistory noHistoryClient ''BTCUSDT'' 3 = Inl ''timeout''"
    by (simp add: noHistoryClient_def)
  have z: "fst (sumRates demoEnv [\<lparr>FundingRate.FundingRate = ''0.0002''\<rparr>,
                          \<lparr>FundingRate.FundingRate = ''-0.0002''\<rparr>]) = 0"
    by (simp add: sumRates_def demoEnv_def parseDecimal_def digitOf_def)
  have r: "formatPercent (1 / 10000 * 100) = 1 / 100"
    by (simp add: formatPercent_def goRound_def)
  from C10_funding_history_failure [OF p f h]
  have a: "CalculateFundingMetrics demoEnv noHistoryClient ''BTCUSDT'' =
             Some \<lparr>FundingMetrics.Current = formatPercent (1 / 10000 * 100), Avg3 = 0\<rparr>"
    and b: "\<forall>fundingRates. fst (sumRates demoEnv fundingRates) = 0 \<longrightarrow>
            CalculateFundingMetrics demoEnv
              (noHistoryClient\<lparr>GetFundingRateHistory := (\<lambda>s limit. Inr fundingRates)\<rparr>)
              ''BTCUSDT'' =
            CalculateFundingMetrics demoEnv noHistoryClient ''BTCUSDT''"
    by blast+
  from b z have c: "CalculateFundingMetrics demoEnv
     (noHistoryClient\<lparr>GetFundingRateHistory :=
        (\<lambda>s limit. Inr [\<lparr>FundingRate.FundingRate = ''0.0002''\<rparr>,
                          \<lparr>FundingRate.FundingRate = ''-0.0002''\<rparr>])\<rparr>) ''BTCUSDT'' =
     CalculateFundingMetrics demoEnv noHistoryClient ''BTCUSDT''"
    by blast
  have f': "ParseFloat demoEnv ''0.0001'' = Some (1 / 10000)"
    using f by simp
  from a c have "CalculateFundingMetrics demoEnv noHistoryClient ''BTCUSDT'' =
       Some \<lparr>FundingMetrics.Current = 1 / 100, Avg3 = 0\<rparr>"
    and "CalculateFundingMetrics demoEnv
     (noHistoryClient\<lparr>GetFundingRateHistory :=
        (\<lambda>s limit. Inr [\<lparr>FundingRate.FundingRate = ''0.0002''\<rparr>,
                          \<lparr>FundingRate.FundingRate = ''-0.0002''\<rparr>])\<rparr>) ''BTCUSDT'' =
       Some \<lparr>FundingMetrics.Current = 1 / 100, Avg3 = 0\<rparr>"
    unfolding r by simp_all
  with p f' h z show ?thesis
    by blast
qed

subsection \<open>The indicator functions do not panic\<close>

lemma elemAt_last: "xs \<noteq> [] \<Longrightarrow> elemAt xs (int (length xs) - 1) = Inr (last xs)"
  by (simp add: elemAt_def last_conv_nth nat_diff_distrib')

lemma elemAt_same_length:
  "xs \<noteq> [] \<Longrightarrow> length ys = length xs \<Longrightarrow> \<exists>v. elemAt ys (int (length xs) - 1) = Inr v"
  by (simp add: elemAt_def)

lemma length_extractCloses: "length (extractCloses env klines) = length klines"
  by (simp add: extractCloses_def)

lemma talibLengthsD:
  assumes "talibLengths env"
  shows "length (talib_Ema env xs p) = length xs"
    and "length (talib_Rsi env xs p) = length xs"
    and "length (fst (talib_Macd env xs a b c)) = length xs"
    and "length (fst (snd (talib_Macd env xs a b c))) = length xs"
    and "length (snd (snd (talib_Macd env xs a b c))) = length xs"
    and "length (fst (talib_BBands env xs p u d)) = length xs"
    and "length (fst (snd (talib_BBands env xs p u d))) = length xs"
    and "length (snd (snd (talib_BBands env xs p u d))) = length xs"
    and "length (talib_Atr env hs ls xs p) = length xs"
    and "length (talib_Adx env hs ls xs p) = length xs"
    and "length (fst (talib_StochRsi env xs p k d')) = length xs"
    and "length (snd (talib_StochRsi env xs p k d')) = length xs"
  using assms by (simp_all add: talibLengths_def)

lemma nonempty_of_length: "length ys = length xs \<Longrightarrow> xs \<noteq> [] \<Longrightarrow> ys \<noteq> []"
  by auto

lemma CalculateEMA_ok:
  assumes "talibLengths env" and "klines \<noteq> []"
  shows "\<exists>v. CalculateEMA env klines period = Inr v"
proof -
  have "length (talib_Ema env (extractCloses env klines) period) = length klines"
    by (simp add: talibLengthsD(1) [OF assms(1)] length_extractCloses)
  from nonempty_of_length [OF this assms(2)] show ?thesis
    by (simp add: CalculateEMA_def Let_def elemAt_last andThen_def)
qed

lemma CalculateRSI_ok:
  assumes "talibLengths env" and "klines \<noteq> []"
  shows "\<exists>v. CalculateRSI env klines period = Inr v"
proof -
  have "length (talib_Rsi env (extractCloses env klines) period) = length klines"
    by (simp add: talibLengthsD(2) [OF assms(1)] length_extractCloses)
  from nonempty_of_length [OF this assms(2)] show ?thesis
    by (simp add: CalculateRSI_def Let_def elemAt_last andThen_def)
qed

lemma CalculateATR_ok:
  assumes "talibLengths env" and "klines \<noteq> []"
  shows "\<exists>v. CalculateATR env klines period = Inr v"
proof -
  obtain highs lows closes where h: "extractHLC env klines = (highs, lows, closes)"
    and l: "length closes = length klines"
    by (simp add: extractHLC_def)
  have "length (talib_Atr env highs lows closes period) = length klines"
    by (simp add: talibLengthsD(9) [OF assms(1)] l)
  from nonempty_of_length [OF this assms(2)] show ?thesis
    by (simp add: CalculateATR_def h Let_def elemAt_last andThen_def)
qed

lemma CalculateADX_ok:
  assumes "talibLengths env" and "klines \<noteq> []"
  shows "\<exists>v. CalculateADX env klines period = Inr v"
proof -
  obtain highs lows closes where h: "extractHLC env klines = (highs, lows, closes)"
    and l: "length closes = length klines"
    by (simp add: extractHLC_def)
  have "length (talib_Adx env highs lows closes period) = length klines"
    by (simp add: talibLengthsD(10) [OF assms(1)] l)
  from nonempty_of_length [OF this assms(2)] show ?thesis
    by (simp add: CalculateADX_def h Let_def elemAt_last andThen_def)
qed

lemma CalculateMACD_ok:
  assumes "talibLengths env" and "klines \<noteq> []"
  shows "\<exists>v. CalculateMACD env klines = Inr v"
proof -
  obtain macd signal histogram
    where t: "talib_Macd env (extractCloses env klines) 12 26 9 = (macd, signal, histogram)"
    by (cases "talib_Macd env (extractCloses env klines) 12 26 9") auto
  have len: "length macd = length klines" "length signal = length klines"
      "length histogram = length klines"
    using talibLengthsD(3,4,5) [OF assms(1), of "extractCloses env klines" 12 26 9]
    by (simp_all add: t length_extractCloses)
  have ne: "macd \<noteq> []"
    by (rule nonempty_of_length [OF len(1) assms(2)])
  from elemAt_same_length [OF ne, of macd] obtain a
    where a: "elemAt macd (int (length macd) - 1) = Inr a"
    by auto
  from elemAt_same_length [OF ne, of signal] len obtain b
    where b: "elemAt signal (int (length macd) - 1) = Inr b"
    by auto
  from elemAt_same_length [OF ne, of histogram] len obtain c
    where c: "elemAt histogram (int (length macd) - 1) = Inr c"
    by auto
  show ?thesis
    by (simp add: CalculateMACD_def Let_def t a b c andThen_def)
qed

lemma CalculateBollingerBands_ok:
  assumes "talibLengths env" and "klines \<noteq> []"
  shows "\<exists>v. CalculateBollingerBands env klines period stdDev = Inr v"
proof -
  obtain upper middle lower
    where t: "talib_BBands env (extractCloses env klines) period stdDev stdDev = (upper, middle, lower)"
    by (cases "talib_BBands env (extractCloses env klines) period stdDev stdDev") auto
  have len: "length upper = length klines" "length middle = length klines"
      "length lower = length klines"
    using talibLengthsD(6,7,8) [OF assms(1), of "extractCloses env klines" period stdDev stdDev]
    by (simp_all add: t length_extractCloses)
  have ne: "upper \<noteq> []"
    by (rule nonempty_of_length [OF len(1) assms(2)])
  from elemAt_same_length [OF ne, of upper] obtain a
    where a: "elemAt upper (int (length upper) - 1) = Inr a"
    by auto
  from elemAt_same_length [OF ne, of middle] len obtain b
    where b: "elemAt middle (int (length upper) - 1) = Inr b"
    by auto
  from elemAt_same_length [OF ne, of lower] len obtain c
    where c: "elemAt lower (int (length upper) - 1) = Inr c"
    by auto
  show ?thesis
    by (simp add: CalculateBollingerBands_def Let_def t a b c andThen_def)
qed

lemma CalculateStochRSI_ok:
  assumes "talibLengths env" and "klines \<noteq> []"
  shows "\<exists>v. CalculateStochRSI env klines period = Inr v"
proof -
  obtain fastK fastD
    where t: "talib_StochRsi env (extractCloses env klines) period 5 3 = (fastK, fastD)"
    by (cases "talib_StochRsi env (extractCloses env klines) period 5 3") auto
  have len: "length fastK = length klines" "length fastD = length klines"
    using talibLengthsD(11,12) [OF assms(1), of "extractCloses env klines" period 5 3]
    by (simp_all add: t length_extractCloses)
  have ne: "fastK \<noteq> []"
    by (rule nonempty_of_length [OF len(1) assms(2)])
  from elemAt_same_length [OF ne, of fastK] obtain a
    where a: "elemAt fastK (int (length fastK) - 1) = Inr a"
    by auto
  from elemAt_same_length [OF ne, of fastD] len obtain b
    where b: "elemAt fastD (int (length fastK) - 1) = Inr b"
    by auto
  show ?thesis
    by (simp add: CalculateStochRSI_def Let_def t a b andThen_def)
qed

lemma calculateTimeframeData_ok:
  assumes "talibLengths env" and "klines \<noteq> []"
  shows "\<exists>d. calculateTimeframeData env klines timeframe = Inr (Some d)"
proof -
  from CalculateEMA_ok [OF assms] obtain ema9 ema21 ema55
    where ema: "CalculateEMA env klines 9 = Inr ema9" "CalculateEMA env klines 21 = Inr ema21"
      "CalculateEMA env klines 55 = Inr ema55"
    by metis
  from CalculateMACD_ok [OF assms] obtain macd where macd: "CalculateMACD env klines = Inr macd"
    by blast
  from CalculateRSI_ok [OF assms] obtain rsi where rsi: "CalculateRSI env klines 14 = Inr rsi"
    by blast
  from CalculateBollingerBands_ok [OF assms] obtain bb
    where bb: "CalculateBollingerBands env klines 20 2 = Inr bb"
    by blast
  from CalculateATR_ok [OF assms] obtain atr where atr: "CalculateATR env klines 14 = Inr atr"
    by blast
  from CalculateADX_ok [OF assms] obtain adx where adx: "CalculateADX env klines 14 = Inr adx"
    by blast
  from CalculateStochRSI_ok [OF assms] obtain st where st: "CalculateStochRSI env klines 14 = Inr st"
    by blast
  show ?thesis
    using assms(2)
    by (simp add: calculateTimeframeData_def Let_def ema macd rsi bb atr adx st andThen_def)
qed

lemma CalculateShortTermIndicators_short:
  "length a < 55 \<or> length b < 55 \<or> length c < 55 \<Longrightarrow>
   CalculateShortTermIndicators env symbol a b c = Inr None"
  by (simp add: CalculateShortTermIndicators_def)

lemma CalculateLongTermIndicators_short:
  "length a < 55 \<or> length b < 55 \<or> length c < 55 \<Longrightarrow>
   CalculateLongTermIndicators env symbol a b c = Inr None"
  by (simp add: CalculateLongTermIndicators_def)

lemma CalculateShortTermIndicators_ok:
  assumes "talibLengths env" and "55 \<le> length a" and "55 \<le> length b" and "55 \<le> length c"
  shows "\<exists>h1 m15 m5. CalculateShortTermIndicators env symbol a b c =
           Inr (Some \<lparr>ShortTermIndicators.Symbol = symbol,
                       ShortTermIndicators.Timestamp = Now env,
                       ShortTermIndicators.MarketData = None,
                       ShortTermIndicators.Timeframes =
                         \<lparr>ShortTermTimeframes.H1 = Some h1,
                          ShortTermTimeframes.M15 = Some m15, M5 = Some m5\<rparr>\<rparr>)"
proof -
  have ne: "a \<noteq> []" "b \<noteq> []" "c \<noteq> []"
    using assms(2-4) by auto
  from calculateTimeframeData_ok [OF assms(1) ne(1)] obtain h1
    where h1: "calculateTimeframeData env a ''1h'' = Inr (Some h1)"
    by blast
  from calculateTimeframeData_ok [OF assms(1) ne(2)] obtain m15
    where m15: "calculateTimeframeData env b ''15m'' = Inr (Some m15)"
    by blast
  from calculateTimeframeData_ok [OF assms(1) ne(3)] obtain m5
    where m5: "calculateTimeframeData env c ''5m'' = Inr (Some m5)"
    by blast
  have "\<not> (length a < 55 \<or> length b < 55 \<or> length c < 55)"
    using assms(2-4) by simp
  then show ?thesis
    by (simp add: CalculateShortTermIndicators_def h1 m15 m5 andThen_def)
qed

lemma CalculateLongTermIndicators_ok:
  assumes "talibLengths env" and "55 \<le> length a" and "55 \<le> length b" and "55 \<le> length c"
  shows "\<exists>h4 h1 m15. CalculateLongTermIndicators env symbol a b c =
           Inr (Some \<lparr>LongTermIndicators.Symbol = symbol,
                       LongTermIndicators.Timestamp = Now env,
                       LongTermIndicators.MarketData = None,
                       LongTermIndicators.Timeframes =
                         \<lparr>H4 = Some h4, LongTermTimeframes.H1 = Some h1,
                          LongTermTimeframes.M15 = Some m15\<rparr>\<rparr>)"
proof -
  have ne: "a \<noteq> []" "b \<noteq> []" "c \<noteq> []"
    using assms(2-4) by auto
  from calculateTimeframeData_ok [OF assms(1) ne(1)] obtain h4
    where h4: "calculateTimeframeData env a ''4h'' = Inr (Some h4)"
    by blast
  from calculateTimeframeData_ok [OF assms(1) ne(2)] obtain h1
    where h1: "calculateTimeframeData env b ''1h'' = Inr (Some h1)"
    by blast
  from calculateTimeframeData_ok [OF assms(1) ne(3)] obtain m15
    where m15: "calculateTimeframeData env c ''15m'' = Inr (Some m15)"
    by blast
  have "\<not> (length a < 55 \<or> length b < 55 \<or> length c < 55)"
    using assms(2-4) by simp
  then show ?thesis
    by (simp add: CalculateLongTermIndicators_def h4 h1 m15 andThen_def)
qed

lemma elemAt_last_of:
  "length ys = length xs \<Longrightarrow> xs \<noteq> [] \<Longrightarrow> elemAt ys (int (length xs) - 1) = Inr (last ys)"
  by (metis elemAt_last nonempty_of_length)

lemma CalculateEMA_exact:
  assumes "talibLengths env" and "klines \<noteq> []" and "period \<le> int (length klines)"
  shows "CalculateEMA env klines period =
           Inr (formatPrice (last (talib_Ema env (extractCloses env klines) period)))"
proof -
  have "length (talib_Ema env (extractCloses env klines) period) = length klines"
    by (simp add: talibLengthsD(1) [OF assms(1)] length_extractCloses)
  from nonempty_of_length [OF this assms(2)] assms(3) show ?thesis
    by (simp add: CalculateEMA_def Let_def elemAt_last andThen_def)
qed

lemma CalculateRSI_exact:
  assumes "talibLengths env" and "klines \<noteq> []" and "period + 1 \<le> int (length klines)"
  shows "CalculateRSI env klines period =
           Inr (formatPercent (last (talib_Rsi env (extractCloses env klines) period)))"
proof -
  have "length (talib_Rsi env (extractCloses env klines) period) = length klines"
    by (simp add: talibLengthsD(2) [OF assms(1)] length_extractCloses)
  from nonempty_of_length [OF this assms(2)] assms(3) show ?thesis
    by (simp add: CalculateRSI_def Let_def elemAt_last andThen_def)
qed

lemma CalculateATR_exact:
  assumes "talibLengths env" and "klines \<noteq> []" and "period + 1 \<le> int (length klines)"
    and "extractHLC env klines = (highs, lows, closes)"
  shows "CalculateATR env klines period =
           Inr (formatPrice (last (talib_Atr env highs lows closes period)))"
proof -
  have l: "length closes = length klines"
    using assms(4) by (auto simp: extractHLC_def)
  have "length (talib_Atr env highs lows closes period) = length klines"
    by (simp add: talibLengthsD(9) [OF assms(1)] l)
  from nonempty_of_length [OF this assms(2)] assms(3) show ?thesis
    by (simp add: CalculateATR_def assms(4) Let_def elemAt_last andThen_def)
qed

lemma CalculateADX_exact:
  assumes "talibLengths env" and "klines \<noteq> []" and "period * 2 \<le> int (length klines)"
    and "extractHLC env klines = (highs, lows, closes)"
  shows "CalculateADX env klines period =
           Inr (formatPercent (last (talib_Adx env highs lows closes period)))"
proof -
  have l: "length closes = length klines"
    using assms(4) by (auto simp: extractHLC_def)
  have "length (talib_Adx env highs lows closes period) = length klines"
    by (simp add: talibLengthsD(10) [OF assms(1)] l)
  from nonempty_of_length [OF this assms(2)] assms(3) show ?thesis
    by (simp add: CalculateADX_def assms(4) Let_def elemAt_last andThen_def)
qed

lemma CalculateMACD_exact:
  assumes "talibLengths env" and "klines \<noteq> []" and "26 \<le> length klines"
    and t: "talib_Macd env (extractCloses env klines) 12 26 9 = (macd, signal, histogram)"
  shows "CalculateMACD env klines =
           Inr (Some \<lparr>DIF = formatMACD (last macd), DEA = formatMACD (last signal),
                       Histogram = formatMACD (last histogram)\<rparr>)"
proof -
  have len: "length macd = length klines" "length signal = length klines"
      "length histogram = length klines"
    using talibLengthsD(3,4,5) [OF assms(1), of "extractCloses env klines" 12 26 9]
    by (simp_all add: t length_extractCloses)
  have ne: "macd \<noteq> []"
    by (rule nonempty_of_length [OF len(1) assms(2)])
  have a: "elemAt macd (int (length macd) - 1) = Inr (last macd)"
    by (rule elemAt_last [OF ne])
  have b: "elemAt signal (int (length macd) - 1) = Inr (last signal)"
    by (rule elemAt_last_of [OF _ ne]) (simp add: len)
  have c: "elemAt histogram (int (length macd) - 1) = Inr (last histogram)"
    by (rule elemAt_last_of [OF _ ne]) (simp add: len)
  from assms(3) show ?thesis
    by (simp add: CalculateMACD_def Let_def t a b c andThen_def)
qed

lemma CalculateBollingerBands_exact:
  assumes "talibLengths env" and "klines \<noteq> []" and "period \<le> int (length klines)"
    and t: "talib_BBands env (extractCloses env klines) period stdDev stdDev = (upper, middle, lower)"
  shows "CalculateBollingerBands env klines period stdDev =
           Inr (Some \<lparr>Upper = formatPrice (last upper), Middle = formatPrice (last middle),
                       Lower = formatPrice (last lower)\<rparr>)"
proof -
  have len: "length upper = length klines" "length middle = length klines"
      "length lower = length klines"
    using talibLengthsD(6,7,8) [OF assms(1), of "extractCloses env klines" period stdDev stdDev]
    by (simp_all add: t length_extractCloses)
  have ne: "upper \<noteq> []"
    by (rule nonempty_of_length [OF len(1) assms(2)])
  have a: "elemAt upper (int (length upper) - 1) = Inr (last upper)"
    by (rule elemAt_last [OF ne])
  have b: "elemAt middle (int (length upper) - 1) = Inr (last middle)"
    by (rule elemAt_last_of [OF _ ne]) (simp add: len)
  have c: "elemAt lower (int (length upper) - 1) = Inr (last lower)"
    by (rule elemAt_last_of [OF _ ne]) (simp add: len)
  from assms(3) show ?thesis
    by (simp add: CalculateBollingerBands_def Let_def t a b c andThen_def)
qed

lemma CalculateStochRSI_exact:
  assumes "talibLengths env" and "klines \<noteq> []" and "period * 2 \<le> int (length klines)"
    and t: "talib_StochRsi env (extractCloses env klines) period 5 3 = (fastK, fastD)"
  shows "CalculateStochRSI env klines period =
           Inr (Some \<lparr>K = formatPercent (last fastK), D = formatPercent (last fastD)\<rparr>)"
proof -
  have len: "length fastK = length klines" "length fastD = length klines"
    using talibLengthsD(11,12) [OF assms(1), of "extractCloses env klines" period 5 3]
    by (simp_all add: t length_extractCloses)
  have ne: "fastK \<noteq> []"
    by (rule nonempty_of_length [OF len(1) assms(2)])
  have a: "elemAt fastK (int (length fastK) - 1) = Inr (last fastK)"
    by (rule elemAt_last [OF ne])
  have b: "elemAt fastD (int (length fastK) - 1) = Inr (last fastD)"
    by (rule elemAt_last_of [OF _ ne]) (simp add: len)
  from assms(3) show ?thesis
    by (simp add: CalculateStochRSI_def Let_def t a b andThen_def)
qed

lemma calculateTimeframeData_populated:
  assumes t: "talibLengths env" and len: "55 \<le> length klines"
  shows "calculateTimeframeData env klines timeframe = Inr (Some (populatedBlock env klines))"
proof -
  have ne: "klines \<noteq> []"
    using len by auto
  obtain highs lows hlcCloses where hlc: "extractHLC env klines = (highs, lows, hlcCloses)"
    by (cases "extractHLC env klines") auto
  obtain macd signal histogram
    where m: "talib_Macd env (extractCloses env klines) 12 26 9 = (macd, signal, histogram)"
    by (cases "talib_Macd env (extractCloses env klines) 12 26 9") auto
  obtain upper middle lower
    where b: "talib_BBands env (extractCloses env klines) 20 2 2 = (upper, middle, lower)"
    by (cases "talib_BBands env (extractCloses env klines) 20 2 2") auto
  obtain fastK fastD
    where s: "talib_StochRsi env (extractCloses env klines) 14 5 3 = (fastK, fastD)"
    by (cases "talib_StochRsi env (extractCloses env klines) 14 5 3") auto
  have ema: "CalculateEMA env klines 9 =
        Inr (formatPrice (last (talib_Ema env (extractCloses env klines) 9)))"
      "CalculateEMA env klines 21 =
        Inr (formatPrice (last (talib_Ema env (extractCloses env klines) 21)))"
      "CalculateEMA env klines 55 =
        Inr (formatPrice (last (talib_Ema env (extractCloses env klines) 55)))"
    using len by (simp_all add: CalculateEMA_exact [OF t ne])
  have macd: "CalculateMACD env klines =
        Inr (Some \<lparr>DIF = formatMACD (last macd), DEA = formatMACD (last signal),
                    Histogram = formatMACD (last histogram)\<rparr>)"
    using len by (intro CalculateMACD_exact [OF t ne _ m]) simp
  have rsi: "CalculateRSI env klines 14 =
        Inr (formatPercent (last (talib_Rsi env (extractCloses env klines) 14)))"
    using len by (simp add: CalculateRSI_exact [OF t ne])
  have bb: "CalculateBollingerBands env klines 20 2 =
        Inr (Some \<lparr>Upper = formatPrice (last upper), Middle = formatPrice (last middle),
                    Lower = formatPrice (last lower)\<rparr>)"
    using len by (intro CalculateBollingerBands_exact [OF t ne _ b]) simp
  have atr: "CalculateATR env klines 14 =
        Inr (formatPrice (last (talib_Atr env highs lows hlcCloses 14)))"
    using len by (intro CalculateATR_exact [OF t ne _ hlc]) simp
  have adx: "CalculateADX env klines 14 =
        Inr (formatPercent (last (talib_Adx env highs lows hlcCloses 14)))"
    using len by (intro CalculateADX_exact [OF t ne _ hlc]) simp
  have st: "CalculateStochRSI env klines 14 =
        Inr (Some \<lparr>K = formatPercent (last fastK), D = formatPercent (last fastD)\<rparr>)"
    using len by (intro CalculateStochRSI_exact [OF t ne _ s]) simp
  have lastk: "klines ! (length klines - Suc 0) = last klines"
    using ne by (simp add: last_conv_nth)
  show ?thesis
    using ne len
    by (simp add: calculateTimeframeData_def populatedBlock_def Let_def ema macd rsi bb atr adx st
        andThen_def hlc m b s lastk GetVolume_def)
qed

lemma CalculateShortTermIndicators_populated:
  assumes "talibLengths env" and "55 \<le> length a" and "55 \<le> length b" and "55 \<le> length c"
  shows "CalculateShortTermIndicators env symbol a b c =
           Inr (Some \<lparr>ShortTermIndicators.Symbol = symbol,
                       ShortTermIndicators.Timestamp = Now env,
                       ShortTermIndicators.MarketData = None,
                       ShortTermIndicators.Timeframes =
                         \<lparr>ShortTermTimeframes.H1 = Some (populatedBlock env a),
                          ShortTermTimeframes.M15 = Some (populatedBlock env b),
                          M5 = Some (populatedBlock env c)\<rparr>\<rparr>)"
proof -
  have "\<not> (length a < 55 \<or> length b < 55 \<or> length c < 55)"
    using assms(2-4) by simp
  then show ?thesis
    by (simp add: CalculateShortTermIndicators_def andThen_def
        calculateTimeframeData_populated [OF assms(1,2)]
        calculateTimeframeData_populated [OF assms(1,3)]
        calculateTimeframeData_populated [OF assms(1,4)])
qed

lemma CalculateLongTermIndicators_populated:
  assumes "talibLengths env" and "55 \<le> length a" and "55 \<le> length b" and "55 \<le> length c"
  shows "CalculateLongTermIndicators env symbol a b c =
           Inr (Some \<lparr>LongTermIndicators.Symbol = symbol,
                       LongTermIndicators.Timestamp = Now env,
                       LongTermIndicators.MarketData = None,
                       LongTermIndicators.Timeframes =
                         \<lparr>H4 = Some (populatedBlock env a),
                          LongTermTimeframes.H1 = Some (populatedBlock env b),
                          LongTermTimeframes.M15 = Some (populatedBlock env c)\<rparr>\<rparr>)"
proof -
  have "\<not> (length a < 55 \<or> length b < 55 \<or> length c < 55)"
    using assms(2-4) by simp
  then show ?thesis
    by (simp add: CalculateLongTermIndicators_def andThen_def
        calculateTimeframeData_populated [OF assms(1,2)]
        calculateTimeframeData_populated [OF assms(1,3)]
        calculateTimeframeData_populated [OF assms(1,4)])
qed

lemma last_demoKlines: "last demoKlines = demoKline"
  by (simp add: demoKlines_def)

lemma demo_populatedBlock:
  "ClosePrice (populatedBlock demoEnv demoKlines) = 50000"
  "EMA55 (populatedBlock demoEnv demoKlines) = 50000"
  "MACD (populatedBlock demoEnv demoKlines) =
     Some \<lparr>DIF = 50000, DEA = 50000, Histogram = 50000\<rparr>"
  "TimeframeData.Volume (populatedBlock demoEnv demoKlines) = 125 / 10"
  by (simp_all add: populatedBlock_def Let_def extractHLC_def extractCloses_def last_demoKlines
      demoKlines_def demoKline_def demoEnv_def parseOrZero_def parseDecimal_def digitOf_def
      formatPrice_def formatMACD_def goRound_def last_map split_def)

lemma talibLengths_demoEnv: "talibLengths demoEnv"
  by (simp add: talibLengths_def demoEnv_def)

lemma length_demoKlines: "length demoKlines = 100"
  by (simp add: demoKlines_def)

subsection \<open>C5: fifty-five candles\<close>

text \<open>
  C5: \<^verbatim>\<open>CalculateShortTermIndicators\<close> and \<^verbatim>\<open>CalculateLongTermIndicators\<close> return no
  snapshot whenever one of the three series has fewer than 55 candles. Whenever all three
  series have at least 55 (go-talib returning one value per candle), they return a snapshot
  whose three timeframe blocks are fully populated: each block is exactly the block of the
  specification for its series, with the latest prices and every indicator, the EMA 55
  included, computed from the series, and with MACD, Bollinger and StochRSI present.
\<close>

theorem C5_minimum_candles:
  "(length a < 55 \<or> length b < 55 \<or> length c < 55 \<longrightarrow>
      CalculateShortTermIndicators env symbol a b c = Inr None \<and>
      CalculateLongTermIndicators env symbol a b c = Inr None) \<and>
   (talibLengths env \<and> 55 \<le> length a \<and> 55 \<le> length b \<and> 55 \<le> length c \<longrightarrow>
      CalculateShortTermIndicators env symbol a b c =
        Inr (Some \<lparr>ShortTermIndicators.Symbol = symbol,
                    ShortTermIndicators.Timestamp = Now env,
                    ShortTermIndicators.MarketData = None,
                    ShortTermIndicators.Timeframes =
                      \<lparr>ShortTermTimeframes.H1 = Some (populatedBlock env a),
                       ShortTermTimeframes.M15 = Some (populatedBlock env b),
                       M5 = Some (populatedBlock env c)\<rparr>\<rparr>) \<and>
      CalculateLongTermIndicators env symbol a b c =
        Inr (Some \<lparr>LongTermIndicators.Symbol = symbol,
                    LongTermIndicators.Timestamp = Now env,
                    LongTermIndicators.MarketData = None,
                    LongTermIndicators.Timeframes =
                      \<lparr>H4 = Some (populatedBlock env a),
                       LongTermTimeframes.H1 = Some (populatedBlock env b),
                       LongTermTimeframes.M15 = Some (populatedBlock env c)\<rparr>\<rparr>))"
proof (intro conjI impI)
  assume "length a < 55 \<or> length b < 55 \<or> length c < 55"
  then show "CalculateShortTermIndicators env symbol a b c = Inr None"
    and "CalculateLongTermIndicators env symbol a b c = Inr None"
    by (rule CalculateShortTermIndicators_short, rule CalculateLongTermIndicators_short)
next
  assume h: "talibLengths env \<and> 55 \<le> length a \<and> 55 \<le> length b \<and> 55 \<le> length c"
  then show "CalculateShortTermIndicators env symbol a b c =
        Inr (Some \<lparr>ShortTermIndicators.Symbol = symbol,
                    ShortTermIndicators.Timestamp = Now env,
                    ShortTermIndicators.MarketData = None,
                    ShortTermIndicators.Timeframes =
                      \<lparr>ShortTermTimeframes.H1 = Some (populatedBlock env a),
                       ShortTermTimeframes.M15 = Some (populatedBlock env b),
                       M5 = Some (populatedBlock env c)\<rparr>\<rparr>)"
    by (intro CalculateShortTermIndicators_populated) simp_all
next
  assume h: "talibLengths env \<and> 55 \<le> length a \<and> 55 \<le> length b \<and> 55 \<le> length c"
  then show "CalculateLongTermIndicators env symbol a b c =
        Inr (Some \<lparr>LongTermIndicators.Symbol = symbol,
                    LongTermIndicators.Timestamp = Now env,
                    LongTermIndicators.MarketData = None,
                    LongTermIndicators.Timeframes =
                      \<lparr>H4 = Some (populatedBlock env a),
                       LongTermTimeframes.H1 = Some (populatedBlock env b),
                       LongTermTimeframes.M15 = Some (populatedBlock env c)\<rparr>\<rparr>)"
    by (intro CalculateLongTermIndicators_populated) simp_all
qed

text \<open>With 54 candles in one series there is no snapshot; with a hundred in each the
  blocks carry the computed values (here: close and EMA 55 of 50000, MACD present).\<close>

theorem C5_minimum_candles_witness:
  "length (take 54 demoKlines) < 55 \<and>
   CalculateShortTermIndicators demoEnv ''BTCUSDT'' demoKlines (take 54 demoKlines) demoKlines
     = Inr None \<and>
   CalculateLongTermIndicators demoEnv ''BTCUSDT'' demoKlines (take 54 demoKlines) demoKlines
     = Inr None \<and>
   talibLengths demoEnv \<and> 55 \<le> length demoKlines \<and>
   CalculateShortTermIndicators demoEnv ''BTCUSDT'' demoKlines demoKlines demoKlines =
     Inr (Some \<lparr>ShortTermIndicators.Symbol = ''BTCUSDT'',
                 ShortTermIndicators.Timestamp = 1700000000,
                 ShortTermIndicators.MarketData = None,
                 ShortTermIndicators.Timeframes =
                   \<lparr>ShortTermTimeframes.H1 = Some (populatedBlock demoEnv demoKlines),
                    ShortTermTimeframes.M15 = Some (populatedBlock demoEnv demoKlines),
                    M5 = Some (populatedBlock demoEnv demoKlines)\<rparr>\<rparr>) \<and>
   returnsSnapshot (CalculateLongTermIndicators demoEnv ''BTCUSDT'' demoKlines demoKlines demoKlines) \<and>
   ClosePrice (populatedBlock demoEnv demoKlines) = 50000 \<and>
   EMA55 (populatedBlock demoEnv demoKlines) = 50000 \<and>
   MACD (populatedBlock demoEnv demoKlines) = Some \<lparr>DIF = 50000, DEA = 50000, Histogram = 50000\<rparr>"
proof -
  have few: "length (take 54 demoKlines) < 55"
    by (simp add: length_demoKlines)
  have many: "55 \<le> length demoKlines"
    by (simp add: length_demoKlines)
  have now: "Now demoEnv = 1700000000"
    by (simp add: demoEnv_def)
  from C5_minimum_candles [of demoKlines "take 54 demoKlines" demoKlines demoEnv "''BTCUSDT''"] few
  have none: "CalculateShortTermIndicators demoEnv ''BTCUSDT'' demoKlines (take 54 demoKlines)
        demoKlines = Inr None"
      "CalculateLongTermIndicators demoEnv ''BTCUSDT'' demoKlines (take 54 demoKlines)
        demoKlines = Inr None"
    by blast+
  from C5_minimum_candles [of demoKlines demoKlines demoKlines demoEnv "''BTCUSDT''"]
    talibLengths_demoEnv many
  have full: "CalculateShortTermIndicators demoEnv ''BTCUSDT'' demoKlines demoKlines demoKlines =
     Inr (Some \<lparr>ShortTermIndicators.Symbol = ''BTCUSDT'',
                 ShortTermIndicators.Timestamp = Now demoEnv,
                 ShortTermIndicators.MarketData = None,
                 ShortTermIndicators.Timeframes =
                   \<lparr>ShortTermTimeframes.H1 = Some (populatedBlock demoEnv demoKlines),
                    ShortTermTimeframes.M15 = Some (populatedBlock demoEnv demoKlines),
                    M5 = Some (populatedBlock demoEnv demoKlines)\<rparr>\<rparr>)"
    and long: "CalculateLongTermIndicators demoEnv ''BTCUSDT'' demoKlines demoKlines demoKlines =
     Inr (Some \<lparr>LongTermIndicators.Symbol = ''BTCUSDT'',
                 LongTermIndicators.Timestamp = Now demoEnv,
                 LongTermIndicators.MarketData = None,
                 LongTermIndicators.Timeframes =
                   \<lparr>H4 = Some (populatedBlock demoEnv demoKlines),
                    LongTermTimeframes.H1 = Some (populatedBlock demoEnv demoKlines),
                    LongTermTimeframes.M15 = Some (populatedBlock demoEnv demoKlines)\<rparr>\<rparr>)"
    by blast+
  have "returnsSnapshot (CalculateLongTermIndicators demoEnv ''BTCUSDT'' demoKlines demoKlines demoKlines)"
    unfolding long by (simp add: returnsSnapshot_def)
  with few none talibLengths_demoEnv many full [unfolded now] demo_populatedBlock(1,2,3)
  show ?thesis
    by blast
qed

subsection \<open>C2: market data that cannot be fetched\<close>

lemma CalculateMarketData_no_OI:
  "GetOpenInterest client symbol = Inl e \<Longrightarrow>
   CalculateMarketData env client symbol price oiCache = None"
  by (simp add: CalculateMarketData_def CalculateOIMetrics_def)

lemma WithMarket_short:
  assumes "CalculateShortTermIndicators env symbol a b c = Inr (Some ind)"
    and "M5 (ShortTermIndicators.Timeframes ind) = Some m5"
  shows "CalculateShortTermIndicatorsWithMarket env symbol a b c client oiCache =
     (case CalculateMarketData env client symbol (ClosePrice m5) oiCache of
        None \<Rightarrow> Inl NilPointerDereference
      | Some md \<Rightarrow> Inr (Some (ind\<lparr>ShortTermIndicators.MarketData := Some md\<rparr>)))"
  using assms
  by (simp add: CalculateShortTermIndicatorsWithMarket_def andThen_def Let_def split: option.splits)

lemma WithMarket_long:
  assumes "CalculateLongTermIndicators env symbol a b c = Inr (Some ind)"
    and "LongTermTimeframes.M15 (LongTermIndicators.Timeframes ind) = Some m15"
  shows "CalculateLongTermIndicatorsWithMarket env symbol a b c client oiCache =
     (case CalculateMarketData env client symbol (ClosePrice m15) oiCache of
        None \<Rightarrow> Inl NilPointerDereference
      | Some md \<Rightarrow> Inr (Some (ind\<lparr>LongTermIndicators.MarketData := Some md\<rparr>)))"
  using assms
  by (simp add: CalculateLongTermIndicatorsWithMarket_def andThen_def Let_def split: option.splits)

text \<open>
  C2 says that the two functions still return the timeframe indicators when the market
  data cannot be fetched, and never panic. The code does not: with a hundred candles per
  series the indicators are computed, and when the open-interest fetch fails both
  functions end in a \<^verbatim>\<open>nil\<close> pointer dereference instead of returning them.
\<close>

theorem C2_market_failure_panics:
  "returnsSnapshot (CalculateShortTermIndicators demoEnv ''BTCUSDT'' demoKlines demoKlines demoKlines) \<and>
   CalculateShortTermIndicatorsWithMarket demoEnv ''BTCUSDT'' demoKlines demoKlines demoKlines
     noOIClient None = Inl NilPointerDereference \<and>
   returnsSnapshot (CalculateLongTermIndicators demoEnv ''BTCUSDT'' demoKlines demoKlines demoKlines) \<and>
   CalculateLongTermIndicatorsWithMarket demoEnv ''BTCUSDT'' demoKlines demoKlines demoKlines
     noOIClient None = Inl NilPointerDereference"
proof -
  have many: "55 \<le> length demoKlines"
    by (simp add: length_demoKlines)
  have fail: "GetOpenInterest noOIClient ''BTCUSDT'' = Inl ''timeout''"
    by (simp add: noOIClient_def)
  from CalculateShortTermIndicators_ok [OF talibLengths_demoEnv many many many, of "''BTCUSDT''"]
  obtain ind m5 where s: "CalculateShortTermIndicators demoEnv ''BTCUSDT'' demoKlines demoKlines
        demoKlines = Inr (Some ind)" "M5 (ShortTermIndicators.Timeframes ind) = Some m5"
    by auto
  from CalculateLongTermIndicators_ok [OF talibLengths_demoEnv many many many, of "''BTCUSDT''"]
  obtain ind' m15 where l: "CalculateLongTermIndicators demoEnv ''BTCUSDT'' demoKlines demoKlines
        demoKlines = Inr (Some ind')"
      "LongTermTimeframes.M15 (LongTermIndicators.Timeframes ind') = Some m15"
    by auto
  have "CalculateShortTermIndicatorsWithMarket demoEnv ''BTCUSDT'' demoKlines demoKlines demoKlines
     noOIClient None = Inl NilPointerDereference"
    by (simp add: WithMarket_short [OF s] CalculateMarketData_no_OI [OF fail])
  moreover have "CalculateLongTermIndicatorsWithMarket demoEnv ''BTCUSDT'' demoKlines demoKlines
     demoKlines noOIClient None = Inl NilPointerDereference"
    by (simp add: WithMarket_long [OF l] CalculateMarketData_no_OI [OF fail])
  ultimately show ?thesis
    using s(1) l(1) by (simp add: returnsSnapshot_def)
qed

subsection \<open>One tick of a strategy loop\<close>

lemma candleFailureShort_skip:
  "candleFailureShort client s \<Longrightarrow> processShortTermSymbol env client accountID st s = Inr st"
  by (auto simp: candleFailureShort_def candleFailure_def processShortTermSymbol_def Let_def
      CalculateShortTermIndicatorsWithMarket_def CalculateShortTermIndicators_def andThen_def
      split: sum.splits)

lemma candleFailureLong_skip:
  "candleFailureLong client s \<Longrightarrow> processLongTermSymbol env client accountID st s = Inr st"
  by (auto simp: candleFailureLong_def candleFailure_def processLongTermSymbol_def Let_def
      CalculateLongTermIndicatorsWithMarket_def CalculateLongTermIndicators_def andThen_def
      split: sum.splits)

lemma processShortTermStrategy_append:
  "processShortTermStrategy env client (xs @ ys) st accountID =
     andThen (processShortTermStrategy env client xs st accountID)
       (\<lambda>st'. processShortTermStrategy env client ys st' accountID)"
  by (induction xs arbitrary: st) (auto simp: andThen_def split: sum.splits)

lemma processLongTermStrategy_append:
  "processLongTermStrategy env client (xs @ ys) st accountID =
     andThen (processLongTermStrategy env client xs st accountID)
       (\<lambda>st'. processLongTermStrategy env client ys st' accountID)"
  by (induction xs arbitrary: st) (auto simp: andThen_def split: sum.splits)

lemma skip_short_in_tick:
  assumes "candleFailureShort client s"
  shows "processShortTermStrategy env client (pre @ s # post) st accountID =
         processShortTermStrategy env client (pre @ post) st accountID"
  by (simp add: processShortTermStrategy_append candleFailureShort_skip [OF assms] andThen_def
      split: sum.splits)

lemma skip_long_in_tick:
  assumes "candleFailureLong client s"
  shows "processLongTermStrategy env client (pre @ s # post) st accountID =
         processLongTermStrategy env client (pre @ post) st accountID"
  by (simp add: processLongTermStrategy_append candleFailureLong_skip [OF assms] andThen_def
      split: sum.splits)

lemma marketDataAvailable_Some:
  assumes "marketDataAvailable env client s"
  shows "\<exists>md. CalculateMarketData env client s price cache = Some md"
proof -
  from assms obtain oi0 fm where "CalculateOIMetrics env client s 0 = Some oi0"
    and fm: "CalculateFundingMetrics env client s = Some fm"
    by (auto simp: marketDataAvailable_def)
  then obtain oi where oi: "CalculateOIMetrics env client s price = Some oi"
    by (auto simp: CalculateOIMetrics_def Let_def split: sum.splits option.splits)
  show ?thesis
    by (cases cache) (simp_all add: CalculateMarketData_def oi fm Let_def)
qed


lemma no_candleFailure:
  assumes "\<not> candleFailure client s tf1 tf2 tf3"
  shows "\<exists>a b c. GetKlines client s tf1 100 = Inr a \<and> GetKlines client s tf2 100 = Inr b \<and>
           GetKlines client s tf3 100 = Inr c \<and>
           55 \<le> length a \<and> 55 \<le> length b \<and> 55 \<le> length c"
  using assms by (auto simp: candleFailure_def split: sum.splits)

lemma healthy_short_step:
  assumes t: "talibLengths env" and al: "aligned mgr"
    and c: "\<not> candleFailureShort client s" and md: "marketDataAvailable env client s"
  shows "\<exists>mgr' res. processShortTermSymbol env client accountID (mgr, outs) s =
           Inr (mgr', outs @ [(ShortTerm res, accountID, ''short_term'')]) \<and>
           aligned mgr' \<and> ShortTermIndicators.Symbol res = s"
proof -
  from no_candleFailure [OF c [unfolded candleFailureShort_def]]
  obtain a b c where k: "GetKlines client s ''1h'' 100 = Inr a"
      "GetKlines client s ''15m'' 100 = Inr b" "GetKlines client s ''5m'' 100 = Inr c"
    and len: "55 \<le> length a" "55 \<le> length b" "55 \<le> length c"
    by blast
  define cache where "cache = (let oiCache = (case Get mgr s of
                            None \<Rightarrow> \<lparr>OICache.Symbol = s, History = [], Timestamps = []\<rparr>
                          | Some c \<Rightarrow> c)
     in \<lparr>OICache.Symbol = OICache.Symbol oiCache, History = History oiCache,
         Timestamps = Timestamps oiCache\<rparr>)"
  from CalculateShortTermIndicators_ok [OF t len, of s]
  obtain ind m5 where ind: "CalculateShortTermIndicators env s a b c = Inr (Some ind)"
    and m5: "M5 (ShortTermIndicators.Timeframes ind) = Some m5"
    and sym: "ShortTermIndicators.Symbol ind = s"
    by auto
  from marketDataAvailable_Some [OF md]
  obtain d where d: "CalculateMarketData env client s (ClosePrice m5) (Some cache) = Some d"
    by blast
  define res where "res = ind\<lparr>ShortTermIndicators.MarketData := Some d\<rparr>"
  have w: "CalculateShortTermIndicatorsWithMarket env s a b c client (Some cache) = Inr (Some res)"
    by (simp add: WithMarket_short [OF ind m5] d res_def)
  from Update_aligned [OF al, of s "OICurrent d" "Now env"]
  obtain mgr' where u: "Update mgr s (OICurrent d) (Now env) = Inr mgr'" and al': "aligned mgr'"
    by blast
  have "processShortTermSymbol env client accountID (mgr, outs) s =
           Inr (mgr', outs @ [(ShortTerm res, accountID, ''short_term'')])"
    unfolding processShortTermSymbol_def
    using w [unfolded cache_def Let_def] u
    by (simp add: k Let_def andThen_def outputIndicators_def res_def)
  with al' sym show ?thesis
    by (auto simp: res_def)
qed

lemma healthy_long_step:
  assumes t: "talibLengths env" and al: "aligned mgr"
    and c: "\<not> candleFailureLong client s" and md: "marketDataAvailable env client s"
  shows "\<exists>mgr' res. processLongTermSymbol env client accountID (mgr, outs) s =
           Inr (mgr', outs @ [(LongTerm res, accountID, ''long_term'')]) \<and>
           aligned mgr' \<and> LongTermIndicators.Symbol res = s"
proof -
  from no_candleFailure [OF c [unfolded candleFailureLong_def]]
  obtain a b c where k: "GetKlines client s ''4h'' 100 = Inr a"
      "GetKlines client s ''1h'' 100 = Inr b" "GetKlines client s ''15m'' 100 = Inr c"
    and len: "55 \<le> length a" "55 \<le> length b" "55 \<le> length c"
    by blast
  define cache where "cache = (let oiCache = (case Get mgr s of
                            None \<Rightarrow> \<lparr>OICache.Symbol = s, History = [], Timestamps = []\<rparr>
                          | Some c \<Rightarrow> c)
     in \<lparr>OICache.Symbol = OICache.Symbol oiCache, History = History oiCache,
         Timestamps = Timestamps oiCache\<rparr>)"
  from CalculateLongTermIndicators_ok [OF t len, of s]
  obtain ind m15 where ind: "CalculateLongTermIndicators env s a b c = Inr (Some ind)"
    and m15: "LongTermTimeframes.M15 (LongTermIndicators.Timeframes ind) = Some m15"
    and sym: "LongTermIndicators.Symbol ind = s"
    by auto
  from marketDataAvailable_Some [OF md]
  obtain d where d: "CalculateMarketData env client s (ClosePrice m15) (Some cache) = Some d"
    by blast
  define res where "res = ind\<lparr>LongTermIndicators.MarketData := Some d\<rparr>"
  have w: "CalculateLongTermIndicatorsWithMarket env s a b c client (Some cache) = Inr (Some res)"
    by (simp add: WithMarket_long [OF ind m15] d res_def)
  from Update_aligned [OF al, of s "OICurrent d" "Now env"]
  obtain mgr' where u: "Update mgr s (OICurrent d) (Now env) = Inr mgr'" and al': "aligned mgr'"
    by blast
  have "processLongTermSymbol env client accountID (mgr, outs) s =
           Inr (mgr', outs @ [(LongTerm res, accountID, ''long_term'')])"
    unfolding processLongTermSymbol_def
    using w [unfolded cache_def Let_def] u
    by (simp add: k Let_def andThen_def outputIndicators_def res_def)
  with al' sym show ?thesis
    by (auto simp: res_def)
qed

lemma short_tick:
  assumes t: "talibLengths env"
  shows "aligned (fst st) \<Longrightarrow>
     \<forall>s \<in> set symbols. candleFailureShort client s \<or> marketDataAvailable env client s \<Longrightarrow>
     \<exists>mgr outs. processShortTermStrategy env client symbols st accountID = Inr (mgr, outs) \<and>
       aligned mgr \<and>
       map snapshotSymbol outs =
         map snapshotSymbol (snd st) @ filter (\<lambda>s. \<not> candleFailureShort client s) symbols"
proof (induction symbols arbitrary: st)
  case Nil
  then show ?case
    by (cases st) simp
next
  case (Cons s symbols)
  obtain mgr0 outs0 where st: "st = (mgr0, outs0)"
    by (cases st) auto
  show ?case
  proof (cases "candleFailureShort client s")
    case True
    from Cons.IH [of st] Cons.prems
    obtain mgr outs where "processShortTermStrategy env client symbols st accountID = Inr (mgr, outs)"
      and "aligned mgr"
      and "map snapshotSymbol outs =
         map snapshotSymbol (snd st) @ filter (\<lambda>s. \<not> candleFailureShort client s) symbols"
      by auto
    with True show ?thesis
      by (simp add: candleFailureShort_skip andThen_def)
  next
    case False
    with Cons.prems have md: "marketDataAvailable env client s" and al: "aligned mgr0"
      by (auto simp: st)
    from healthy_short_step [OF t al False md, of accountID outs0]
    obtain mgr1 res where step: "processShortTermSymbol env client accountID (mgr0, outs0) s =
           Inr (mgr1, outs0 @ [(ShortTerm res, accountID, ''short_term'')])"
      and al1: "aligned mgr1" and sym: "ShortTermIndicators.Symbol res = s"
      by blast
    from Cons.IH [of "(mgr1, outs0 @ [(ShortTerm res, accountID, ''short_term'')])"] al1 Cons.prems(2)
    obtain mgr outs where "processShortTermStrategy env client symbols
          (mgr1, outs0 @ [(ShortTerm res, accountID, ''short_term'')]) accountID = Inr (mgr, outs)"
      and "aligned mgr"
      and "map snapshotSymbol outs =
         map snapshotSymbol (outs0 @ [(ShortTerm res, accountID, ''short_term'')]) @
         filter (\<lambda>s. \<not> candleFailureShort client s) symbols"
      by auto
    with False step sym show ?thesis
      by (simp add: st andThen_def)
  qed
qed

lemma long_tick:
  assumes t: "talibLengths env"
  shows "aligned (fst st) \<Longrightarrow>
     \<forall>s \<in> set symbols. candleFailureLong client s \<or> marketDataAvailable env client s \<Longrightarrow>
     \<exists>mgr outs. processLongTermStrategy env client symbols st accountID = Inr (mgr, outs) \<and>
       aligned mgr \<and>
       map snapshotSymbol outs =
         map snapshotSymbol (snd st) @ filter (\<lambda>s. \<not> candleFailureLong client s) symbols"
proof (induction symbols arbitrary: st)
  case Nil
  then show ?case
    by (cases st) simp
next
  case (Cons s symbols)
  obtain mgr0 outs0 where st: "st = (mgr0, outs0)"
    by (cases st) auto
  show ?case
  proof (cases "candleFailureLong client s")
    case True
    from Cons.IH [of st] Cons.prems
    obtain mgr outs where "processLongTermStrategy env client symbols st accountID = Inr (mgr, outs)"
      and "aligned mgr"
      and "map snapshotSymbol outs =
         map snapshotSymbol (snd st) @ filter (\<lambda>s. \<not> candleFailureLong client s) symbols"
      by auto
    with True show ?thesis
      by (simp add: candleFailureLong_skip andThen_def)
  next
    case False
    with Cons.prems have md: "marketDataAvailable env client s" and al: "aligned mgr0"
      by (auto simp: st)
    from healthy_long_step [OF t al False md, of accountID outs0]
    obtain mgr1 res where step: "processLongTermSymbol env client accountID (mgr0, outs0) s =
           Inr (mgr1, outs0 @ [(LongTerm res, accountID, ''long_term'')])"
      and al1: "aligned mgr1" and sym: "LongTermIndicators.Symbol res = s"
      by blast
    from Cons.IH [of "(mgr1, outs0 @ [(LongTerm res, accountID, ''long_term'')])"] al1 Cons.prems(2)
    obtain mgr outs where "processLongTermStrategy env client symbols
          (mgr1, outs0 @ [(LongTerm res, accountID, ''long_term'')]) accountID = Inr (mgr, outs)"
      and "aligned mgr"
      and "map snapshotSymbol outs =
         map snapshotSymbol (outs0 @ [(LongTerm res, accountID, ''long_term'')]) @
         filter (\<lambda>s. \<not> candleFailureLong client s) symbols"
      by auto
    with False step sym show ?thesis
      by (simp add: st andThen_def)
  qed
qed






lemma demo_candleFailure:
  "candleFailureShort demoClient s \<longleftrightarrow> s = ''ETHUSDT''"
  "candleFailureLong demoClient s \<longleftrightarrow> s = ''ETHUSDT''"
  by (simp_all add: candleFailureShort_def candleFailureLong_def candleFailure_def demoClient_def)

lemma demo_marketDataAvailable: "marketDataAvailable demoEnv demoClient s"
proof -
  have "CalculateOIMetrics demoEnv demoClient s 0 \<noteq> None"
    by (simp add: CalculateOIMetrics_def demoEnv_def demoClient_def parseDecimal_def digitOf_def)
  then show ?thesis
    by (simp add: marketDataAvailable_def demo_FundingMetrics)
qed


subsection \<open>C6: a failing pair is skipped\<close>

text \<open>
  C6: within one tick of either strategy loop, a symbol whose candle fetch fails or whose
  candle data is insufficient is skipped: its loop body returns normally with the state
  unchanged, and the tick over a pool containing it equals the tick over the pool without
  it, so the remaining pairs are processed as if it were absent and control returns to the
  timer loop. When every other symbol of the pool has market data available (go-talib
  returning one value per candle), the tick returns normally and emits a snapshot for
  exactly the symbols without a candle failure, in pool order; with one failing symbol
  among five, the other four produce snapshots.
\<close>

theorem C6_failed_pair_is_skipped:
  "(candleFailureShort client s \<longrightarrow>
      processShortTermSymbol env client accountID st s = Inr st \<and>
      processShortTermStrategy env client (pre @ s # post) st accountID =
        processShortTermStrategy env client (pre @ post) st accountID) \<and>
   (candleFailureLong client s \<longrightarrow>
      processLongTermSymbol env client accountID st s = Inr st \<and>
      processLongTermStrategy env client (pre @ s # post) st accountID =
        processLongTermStrategy env client (pre @ post) st accountID) \<and>
   (talibLengths env \<and> aligned (fst st) \<and>
    (\<forall>x \<in> set symbols. candleFailureShort client x \<or> marketDataAvailable env client x) \<longrightarrow>
      (\<exists>mgr outs. processShortTermStrategy env client symbols st accountID = Inr (mgr, outs) \<and>
         map snapshotSymbol outs =
           map snapshotSymbol (snd st) @ filter (\<lambda>x. \<not> candleFailureShort client x) symbols)) \<and>
   (talibLengths env \<and> aligned (fst st) \<and>
    (\<forall>x \<in> set symbols. candleFailureLong client x \<or> marketDataAvailable env client x) \<longrightarrow>
      (\<exists>mgr outs. processLongTermStrategy env client symbols st accountID = Inr (mgr, outs) \<and>
         map snapshotSymbol outs =
           map snapshotSymbol (snd st) @ filter (\<lambda>x. \<not> candleFailureLong client x) symbols))"
proof (intro conjI impI)
  assume "candleFailureShort client s"
  then show "processShortTermSymbol env client accountID st s = Inr st"
    and "processShortTermStrategy env client (pre @ s # post) st accountID =
        processShortTermStrategy env client (pre @ post) st accountID"
    by (rule candleFailureShort_skip, rule skip_short_in_tick)
next
  assume "candleFailureLong client s"
  then show "processLongTermSymbol env client accountID st s = Inr st"
    and "processLongTermStrategy env client (pre @ s # post) st accountID =
        processLongTermStrategy env client (pre @ post) st accountID"
    by (rule candleFailureLong_skip, rule skip_long_in_tick)
next
  assume h: "talibLengths env \<and> aligned (fst st) \<and>
    (\<forall>x \<in> set symbols. candleFailureShort client x \<or> marketDataAvailable env client x)"
  from short_tick [of env st symbols client accountID] h
  show "\<exists>mgr outs. processShortTermStrategy env client symbols st accountID = Inr (mgr, outs) \<and>
         map snapshotSymbol outs =
           map snapshotSymbol (snd st) @ filter (\<lambda>x. \<not> candleFailureShort client x) symbols"
    by blast
next
  assume h: "talibLengths env \<and> aligned (fst st) \<and>
    (\<forall>x \<in> set symbols. candleFailureLong client x \<or> marketDataAvailable env client x)"
  from long_tick [of env st symbols client accountID] h
  show "\<exists>mgr outs. processLongTermStrategy env client symbols st accountID = Inr (mgr, outs) \<and>
         map snapshotSymbol outs =
           map snapshotSymbol (snd st) @ filter (\<lambda>x. \<not> candleFailureLong client x) symbols"
    by blast
qed

theorem C6_failed_pair_is_skipped_witness:
  "candleFailureShort demoClient ''ETHUSDT'' \<and> candleFailureLong demoClient ''ETHUSDT'' \<and>
   talibLengths demoEnv \<and> aligned (NewOICacheManager 5) \<and>
   marketDataAvailable demoEnv demoClient ''BTCUSDT'' \<and>
   processShortTermStrategy demoEnv demoClient demoSymbols (NewOICacheManager 5, []) ''acc1'' =
     processShortTermStrategy demoEnv demoClient [''BTCUSDT'', ''BNBUSDT'', ''SOLUSDT'', ''XRPUSDT'']
       (NewOICacheManager 5, []) ''acc1'' \<and>
   (\<exists>mgr outs. processShortTermStrategy demoEnv demoClient demoSymbols (NewOICacheManager 5, [])
        ''acc1'' = Inr (mgr, outs) \<and>
      map snapshotSymbol outs = [''BTCUSDT'', ''BNBUSDT'', ''SOLUSDT'', ''XRPUSDT'']) \<and>
   (\<exists>mgr outs. processLongTermStrategy demoEnv demoClient demoSymbols (NewOICacheManager 5, [])
        ''acc2'' = Inr (mgr, outs) \<and>
      map snapshotSymbol outs = [''BTCUSDT'', ''BNBUSDT'', ''SOLUSDT'', ''XRPUSDT''])"
proof -
  let ?st = "(NewOICacheManager 5, []) :: OICacheManager \<times> Output list"
  have f: "candleFailureShort demoClient ''ETHUSDT''" "candleFailureLong demoClient ''ETHUSDT''"
    by (simp_all add: demo_candleFailure)
  have a: "aligned (fst ?st)"
    by (simp add: aligned_New)
  have hs: "\<forall>x \<in> set demoSymbols. candleFailureShort demoClient x \<or> marketDataAvailable demoEnv demoClient x"
    and hl: "\<forall>x \<in> set demoSymbols. candleFailureLong demoClient x \<or> marketDataAvailable demoEnv demoClient x"
    by (simp_all add: demo_marketDataAvailable)
  have fs: "filter (\<lambda>x. \<not> candleFailureShort demoClient x) demoSymbols =
              [''BTCUSDT'', ''BNBUSDT'', ''SOLUSDT'', ''XRPUSDT'']"
    and fl: "filter (\<lambda>x. \<not> candleFailureLong demoClient x) demoSymbols =
              [''BTCUSDT'', ''BNBUSDT'', ''SOLUSDT'', ''XRPUSDT'']"
    by (simp_all add: demo_candleFailure demoSymbols_def)
  note C6 = C6_failed_pair_is_skipped [of demoClient "''ETHUSDT''" demoEnv "''acc1''" ?st
      "[''BTCUSDT'']" "[''BNBUSDT'', ''SOLUSDT'', ''XRPUSDT'']" demoSymbols]
  from C6 f(1) have skip: "processShortTermStrategy demoEnv demoClient demoSymbols ?st ''acc1'' =
     processShortTermStrategy demoEnv demoClient [''BTCUSDT'', ''BNBUSDT'', ''SOLUSDT'', ''XRPUSDT'']
       ?st ''acc1''"
    by (simp add: demoSymbols_def)
  from C6 talibLengths_demoEnv a hs
  have "\<exists>mgr outs. processShortTermStrategy demoEnv demoClient demoSymbols ?st ''acc1''
          = Inr (mgr, outs) \<and>
        map snapshotSymbol outs = map snapshotSymbol (snd ?st) @
          filter (\<lambda>x. \<not> candleFailureShort demoClient x) demoSymbols"
    by blast
  then have short: "\<exists>mgr outs. processShortTermStrategy demoEnv demoClient demoSymbols ?st ''acc1''
          = Inr (mgr, outs) \<and>
        map snapshotSymbol outs = [''BTCUSDT'', ''BNBUSDT'', ''SOLUSDT'', ''XRPUSDT'']"
    by (simp add: fs)
  from C6_failed_pair_is_skipped [of demoClient "''ETHUSDT''" demoEnv "''acc2''" ?st
      "[''BTCUSDT'']" "[''BNBUSDT'', ''SOLUSDT'', ''XRPUSDT'']" demoSymbols]
    talibLengths_demoEnv a hl
  have "\<exists>mgr outs. processLongTermStrategy demoEnv demoClient demoSymbols ?st ''acc2''
          = Inr (mgr, outs) \<and>
        map snapshotSymbol outs = map snapshotSymbol (snd ?st) @
          filter (\<lambda>x. \<not> candleFailureLong demoClient x) demoSymbols"
    by blast
  then have long: "\<exists>mgr outs. processLongTermStrategy demoEnv demoClient demoSymbols ?st ''acc2''
          = Inr (mgr, outs) \<and>
        map snapshotSymbol outs = [''BTCUSDT'', ''BNBUSDT'', ''SOLUSDT'', ''XRPUSDT'']"
    by (simp add: fl)
  from f talibLengths_demoEnv a demo_marketDataAvailable skip short long show ?thesis
    by simp
qed

subsection \<open>C7: the cache is updated after it is read\<close>



end
